theory Spec2Isabelle
  imports Complex_Main "HOL-Library.Sublist" "HOL-Library.Log_Nat"
begin

section \<open>Python values used by the services\<close>

text \<open>
  Exceptions are values. Only the exception classes that the modelled code can raise are
  listed; the message is kept where the source builds one.
\<close>

datatype py_exn =
    JWTError string
  | ValueError string
  | TypeError
  | KeyError string
  | OverflowError
  | RequestException
  | DBError

text \<open>\<open>s.endswith(t)\<close>, \<open>s.startswith(t)\<close> and \<open>s[:-1]\<close> on Python strings.\<close>

definition endswith :: "string \<Rightarrow> string \<Rightarrow> bool" where
  "endswith s t = suffix t s"

definition startswith :: "string \<Rightarrow> string \<Rightarrow> bool" where
  "startswith s t = prefix t s"

definition drop_last :: "string \<Rightarrow> string" where
  "drop_last s = butlast s"

section \<open>Python built-ins used by the pricing tool\<close>

text \<open>
  \<open>compute_pricing\<close> reads an integer with \<open>int\<close>, computes in binary64 floats and
  prints the result with \<open>str\<close>. \<open>py_int\<close> is \<open>int\<close> on a string of ASCII
  characters: white space (tab to carriage return, and the space) is stripped, one sign
  may lead, and the digits may be separated by single underscores. A float is a pair \<open>(m, e)\<close> standing for \<open>m * 2 ^ e\<close>; every
  operation computes exactly and rounds to 53 significant bits, ties to even. The
  conversion of an integer too large for a float raises \<open>OverflowError\<close>; the product
  with 0.1 and the difference from 100.0 of a float obtained from an integer can neither
  overflow nor fall below the normal range. \<open>float_str\<close> is \<open>str\<close> on floats: the
  shortest decimal digits that read back as the same float, the nearest to it among
  those, laid out as Python's \<open>repr\<close> does.
\<close>

subsection \<open>int(str)\<close>

definition is_space :: "char \<Rightarrow> bool" where
  "is_space c = (let n = (of_char c :: nat) in (9 \<le> n \<and> n \<le> 13) \<or> n = 32)"

definition is_digit :: "char \<Rightarrow> bool" where
  "is_digit c = (let n = (of_char c :: nat) in 48 \<le> n \<and> n \<le> 57)"

definition digit_value :: "char \<Rightarrow> int" where
  "digit_value c = int (of_char c) - 48"

definition strip :: "string \<Rightarrow> string" where
  "strip s = rev (dropWhile is_space (rev (dropWhile is_space s)))"

fun parse_digits :: "string \<Rightarrow> int \<Rightarrow> int option" where
  "parse_digits [] acc = Some acc"
| "parse_digits [c] acc = (if is_digit c then Some (10 * acc + digit_value c) else None)"
| "parse_digits (c # d # cs) acc =
     (if is_digit c then parse_digits (d # cs) (10 * acc + digit_value c)
      else if c = CHR ''_'' \<and> is_digit d then parse_digits (d # cs) acc
      else None)"

definition py_int :: "string \<Rightarrow> py_exn + int" where
  "py_int s =
     (let t = strip s;
          (sign, body) = (case t of
                            c # r \<Rightarrow> if c = CHR ''-'' then (- 1, r)
                                     else if c = CHR ''+'' then (1, r) else (1, t)
                          | [] \<Rightarrow> (1, t))
      in case body of
           [] \<Rightarrow> Inl (ValueError ''invalid literal for int() with base 10'')
         | c # r \<Rightarrow>
             if \<not> is_digit c then Inl (ValueError ''invalid literal for int() with base 10'')
             else (case parse_digits body 0 of
                     None \<Rightarrow> Inl (ValueError ''invalid literal for int() with base 10'')
                   | Some n \<Rightarrow> Inr (sign * n)))"

subsection \<open>floats\<close>

type_synonym pyfloat = "int \<times> int"

definition float_value :: "pyfloat \<Rightarrow> rat" where
  "float_value x = of_int (fst x) * power_int 2 (snd x)"

definition round53 :: "pyfloat \<Rightarrow> pyfloat" where
  "round53 x =
     (let m = fst x; e = snd x; a = \<bar>m\<bar>; b = bitlen a in
      if b \<le> 53 then (m, e)
      else
        (let k = nat (b - 53); q = a div 2 ^ k; r = a mod 2 ^ k; half = 2 ^ (k - 1);
             q' = (if r > half \<or> (r = half \<and> odd q) then q + 1 else q)
         in (sgn m * q', e + int k)))"

definition float_of_int :: "int \<Rightarrow> py_exn + pyfloat" where
  "float_of_int n =
     (let x = round53 (n, 0) in
      if \<bar>fst x\<bar> * 2 ^ nat (snd x) \<ge> 2 ^ 1024 then Inl OverflowError else Inr x)"

definition float_mul :: "pyfloat \<Rightarrow> pyfloat \<Rightarrow> pyfloat" where
  "float_mul x y = round53 (fst x * fst y, snd x + snd y)"

definition float_sub :: "pyfloat \<Rightarrow> pyfloat \<Rightarrow> pyfloat" where
  "float_sub x y =
     (let e = min (snd x) (snd y)
      in round53 (fst x * 2 ^ nat (snd x - e) - fst y * 2 ^ nat (snd y - e), e))"

definition float_max0 :: "pyfloat \<Rightarrow> pyfloat" where
  "float_max0 x = (if fst x > 0 then x else (0, 0))"

text \<open>The float literals \<open>0.1\<close> (its nearest binary64 value) and \<open>100.0\<close>.\<close>

definition tenth :: pyfloat where
  "tenth = (3602879701896397, - 55)"

definition hundred :: pyfloat where
  "hundred = (100, 0)"

definition recommended_price :: "int \<Rightarrow> py_exn + pyfloat" where
  "recommended_price stock =
     (case float_of_int stock of
        Inl e \<Rightarrow> Inl e
      | Inr s \<Rightarrow> Inr (float_max0 (float_sub hundred (float_mul tenth s))))"

subsection \<open>str(float)\<close>

function digits10 :: "int \<Rightarrow> string" where
  "digits10 n =
     (if n < 10 then [char_of (48 + n)]
      else digits10 (n div 10) @ [char_of (48 + n mod 10)])"
  by pat_completeness auto
termination
  by (relation "measure nat") auto

function leading_zeros :: "int \<Rightarrow> int \<Rightarrow> nat" where
  "leading_zeros p q = (if p \<le> 0 \<or> q \<le> p then 0 else Suc (leading_zeros (10 * p) q))"
  by pat_completeness auto
termination
  by (relation "measure (\<lambda>(p, q). nat (q - p))") auto

text \<open>\<open>decpt v\<close> for \<open>v > 0\<close>: the \<open>k\<close> with \<open>10 ^ (k - 1) \<le> v < 10 ^ k\<close>.\<close>

definition decpt :: "rat \<Rightarrow> int" where
  "decpt v =
     (if v \<ge> 1 then int (length (digits10 \<lfloor>v\<rfloor>))
      else (let (p, q) = quotient_of v in 1 - int (leading_zeros p q)))"

definition reads_back :: "pyfloat \<Rightarrow> rat \<Rightarrow> bool" where
  "reads_back x d =
     (let m = fst x; v = float_value x;
          ue = bitlen m + snd x - 53;
          ulp = power_int 2 (max ue (- 1074));
          below = (if m = 2 ^ nat (bitlen m - 1) \<and> ue > - 1074 then ulp / 2 else ulp);
          lo = v - below / 2; hi = v + ulp / 2;
          mant_even = even \<lfloor>v / ulp\<rfloor>
      in (lo < d \<and> d < hi) \<or> (mant_even \<and> (d = lo \<or> d = hi)))"

definition candidate :: "pyfloat \<Rightarrow> nat \<Rightarrow> (int \<times> int) option" where
  "candidate x n =
     (let v = float_value x; k = decpt v - int n;
          scaled = v * power_int 10 (- k);
          dl = \<lfloor>scaled\<rfloor>; dh = dl + 1;
          okl = reads_back x (of_int dl * power_int 10 k);
          okh = reads_back x (of_int dh * power_int 10 k);
          nearer_low = (scaled - of_int dl < of_int dh - scaled
                        \<or> (scaled - of_int dl = of_int dh - scaled \<and> even dl))
      in if okl \<and> (\<not> okh \<or> nearer_low) then Some (dl, k)
         else if okh then Some (dh, k)
         else None)"

fun shortest :: "pyfloat \<Rightarrow> nat list \<Rightarrow> (int \<times> int) option" where
  "shortest x [] = None"
| "shortest x (n # ns) = (case candidate x n of Some c \<Rightarrow> Some c | None \<Rightarrow> shortest x ns)"

definition strip_zeros :: "string \<Rightarrow> string" where
  "strip_zeros ds = rev (dropWhile (\<lambda>c. c = CHR ''0'') (rev ds))"

definition float_str :: "pyfloat \<Rightarrow> string" where
  "float_str x =
     (if fst x = 0 then ''0.0''
      else
        (let sign = (if fst x < 0 then ''-'' else []);
             ax = (\<bar>fst x\<bar>, snd x)
         in case shortest ax [1 ..< 18] of
              None \<Rightarrow> sign @ ''?''
            | Some (d, k) \<Rightarrow>
                (let all_digits = digits10 d;
                     point = k + int (length all_digits);
                     ds = strip_zeros all_digits;
                     n = int (length ds)
                 in if point \<le> - 4 \<or> point > 16 then
                      (let ex = point - 1;
                           exs = digits10 \<bar>ex\<bar>
                       in sign @ take 1 ds @ (if n > 1 then ''.'' @ drop 1 ds else [])
                          @ ''e'' @ (if ex < 0 then ''-'' else ''+'')
                          @ (if length exs < 2 then ''0'' @ exs else exs))
                    else if point \<le> 0 then
                      sign @ ''0.'' @ replicate (nat (- point)) CHR ''0'' @ ds
                    else if point \<ge> n then
                      sign @ ds @ replicate (nat (point - n)) CHR ''0'' @ ''.0''
                    else
                      sign @ take (nat point) ds @ ''.'' @ drop (nat point) ds)))"

section \<open>auth.py\<close>

subsection \<open>Claims\<close>

text \<open>
  The decoded payload is a dictionary. The model keeps the five entries the code reads,
  each optional as \<open>payload.get\<close> treats it, and typed as the data model gives them:
  \<open>aud\<close> is one string or a list of strings, \<open>capabilities\<close> a list of strings.
\<close>

datatype aud_claim = AudStr string | AudList "string list"

record claims =
  iss :: "string option"
  sub :: "string option"
  aud :: "aud_claim option"
  capabilities :: "string list option"
  delegatee :: "string option"

subsection \<open>has\_capability and has\_audience\<close>

text \<open>The loop body of \<open>has_capability\<close>, shared in shape by \<open>has_audience\<close> and
  by the registry scan: exact match, or a granted entry ending in a star whose remainder
  starts the required string.\<close>

definition cap_matches :: "string \<Rightarrow> string \<Rightarrow> bool" where
  "cap_matches cap required =
     (if cap = required then True
      else if endswith cap ''*'' then
        (let prefix = drop_last cap in startswith required prefix)
      else False)"

fun cap_loop :: "string list \<Rightarrow> string \<Rightarrow> bool" where
  "cap_loop [] required = False"
| "cap_loop (cap # caps) required =
     (if cap_matches cap required then True else cap_loop caps required)"

definition has_capability :: "claims \<Rightarrow> string \<Rightarrow> bool" where
  "has_capability payload required =
     (let caps = (case capabilities payload of None \<Rightarrow> [] | Some cs \<Rightarrow> cs)
      in cap_loop caps required)"

definition has_audience :: "claims \<Rightarrow> string \<Rightarrow> bool" where
  "has_audience payload target =
     (let audiences = (case aud payload of
                         None \<Rightarrow> []
                       | Some (AudStr a) \<Rightarrow> [a]
                       | Some (AudList as) \<Rightarrow> as)
      in cap_loop audiences target)"

subsection \<open>Key set cache\<close>

text \<open>
  A key of the set, with the identifier the lookup compares and the key material handed to
  the decoder. The cache is the pair of module globals \<open>_JWKS_CACHE\<close> and
  \<open>_JWKS_LAST_FETCH\<close>; the cached document is represented by its \<open>keys\<close> list
  (empty when the document has none).
\<close>

record jwk =
  kid :: string
  material :: string

record auth_state =
  JWKS_CACHE :: "jwk list option"
  JWKS_LAST_FETCH :: rat

definition JWKS_TTL_SECONDS :: rat where
  "JWKS_TTL_SECONDS = 3600"

definition OIDC_ISSUER :: string where
  "OIDC_ISSUER = ''https://your-idp.example.com''"

definition auth_init :: auth_state where
  "auth_init = \<lparr>JWKS_CACHE = None, JWKS_LAST_FETCH = 0\<rparr>"

text \<open>
  What a call observes of the outside: the reading of \<open>time.time()\<close> and what a GET of
  the discovery endpoint would answer at that moment (an exception for a timeout, a
  non-success status or a body that is not JSON).
\<close>

record world =
  now :: rat
  jwks_endpoint :: "py_exn + jwk list"

text \<open>The body of the \<open>if\<close> in \<open>_fetch_jwks\<close>: the GET, \<open>raise_for_status\<close>, and
  the two assignments to the globals.\<close>

definition refresh_jwks :: "world \<Rightarrow> auth_state \<Rightarrow> (py_exn + jwk list) \<times> auth_state" where
  "refresh_jwks w s =
     (case jwks_endpoint w of
        Inl e \<Rightarrow> (Inl e, s)
      | Inr ks \<Rightarrow> (Inr ks, s\<lparr>JWKS_CACHE := Some ks, JWKS_LAST_FETCH := now w\<rparr>))"

definition fetch_jwks :: "world \<Rightarrow> auth_state \<Rightarrow> (py_exn + jwk list) \<times> auth_state" where
  "fetch_jwks w s =
     (case JWKS_CACHE s of
        None \<Rightarrow> refresh_jwks w s
      | Some cached \<Rightarrow>
          if now w - JWKS_LAST_FETCH s > JWKS_TTL_SECONDS then refresh_jwks w s
          else (Inr cached, s))"

subsection \<open>verify\_jwt\_token\<close>

text \<open>
  The two functions of the JOSE library are parameters of the model:
  \<open>get_unverified_header\<close> gives the \<open>kid\<close> entry of the token header (\<open>None\<close> when
  the header has none) or raises, and \<open>decode token key audience issuer\<close> checks the RS256
  signature and the registered claims and gives the payload or raises.
\<close>

record jose =
  get_unverified_header :: "string \<Rightarrow> py_exn + string option"
  decode :: "string \<Rightarrow> jwk \<Rightarrow> string \<Rightarrow> string \<Rightarrow> py_exn + claims"

text \<open>The \<open>for jwk in jwks.get("keys", [])\<close> loop with its \<open>break\<close>.\<close>

fun find_key :: "jwk list \<Rightarrow> string \<Rightarrow> jwk option" where
  "find_key [] k = None"
| "find_key (j # js) k = (if kid j = k then Some j else find_key js k)"

text \<open>
  \<open>w1\<close> is what the first call of \<open>_fetch_jwks\<close> observes and \<open>w2\<close> what the second
  one does. The assignment \<open>_JWKS_LAST_FETCH = 0\<close> stands in a function without a
  \<open>global\<close> declaration for that name, so Python binds a local variable: it is the
  \<open>local_last_fetch\<close> below, which nothing reads, and the second \<open>_fetch_jwks\<close> runs on
  the module state as the first one left it.
\<close>

definition verify_jwt_token ::
  "jose \<Rightarrow> world \<Rightarrow> world \<Rightarrow> string \<Rightarrow> string \<Rightarrow> auth_state \<Rightarrow> (py_exn + claims) \<times> auth_state" where
  "verify_jwt_token lib w1 w2 token audience s =
     (case fetch_jwks w1 s of
        (Inl e, s1) \<Rightarrow> (Inl e, s1)
      | (Inr jwks, s1) \<Rightarrow>
          (case get_unverified_header lib token of
             Inl e \<Rightarrow> (Inl e, s1)
           | Inr None \<Rightarrow> (Inl (JWTError ''Missing 'kid' in token header''), s1)
           | Inr (Some k) \<Rightarrow>
               if k = [] then (Inl (JWTError ''Missing 'kid' in token header''), s1)
               else
                 (case find_key jwks k of
                    Some key_data \<Rightarrow> (decode lib token key_data audience OIDC_ISSUER, s1)
                  | None \<Rightarrow>
                      (let local_last_fetch = (0 :: rat) in
                       case fetch_jwks w2 s1 of
                         (Inl e, s2) \<Rightarrow> (Inl e, s2)
                       | (Inr jwks2, s2) \<Rightarrow>
                           (case find_key jwks2 k of
                              Some key_data \<Rightarrow>
                                (decode lib token key_data audience OIDC_ISSUER, s2)
                            | None \<Rightarrow>
                                (Inl (JWTError (''Unable to find matching JWK for kid: '' @ k)),
                                 s2))))))"

subsection \<open>verify\_delegation\_proof\<close>

text \<open>
  Step 4 builds two Python sets and asks \<open>issubset\<close>: membership of the delegated strings
  among the parent's strings, with no wildcard rule.
\<close>

definition verify_delegation_proof ::
  "jose \<Rightarrow> world \<Rightarrow> world \<Rightarrow> string \<Rightarrow> string \<Rightarrow> claims \<Rightarrow> auth_state
     \<Rightarrow> (py_exn + claims) \<times> auth_state" where
  "verify_delegation_proof lib w1 w2 delegation_jwt delegatee_name original_token_payload s =
     (case verify_jwt_token lib w1 w2 delegation_jwt delegatee_name s of
        (Inl e, s') \<Rightarrow> (Inl e, s')
      | (Inr payload, s') \<Rightarrow>
          (if iss payload \<noteq> iss original_token_payload then
             Inl (ValueError ''Delegation proof 'iss' does not match original token issuer'')
           else if sub payload \<noteq> sub original_token_payload then
             Inl (ValueError ''Delegation proof 'sub' must match original token 'sub' '')
           else if delegatee payload \<noteq> Some delegatee_name then
             Inl (ValueError ''Delegation proof not intended for this server'')
           else
             (let orig_caps = set (case capabilities original_token_payload of
                                     None \<Rightarrow> [] | Some cs \<Rightarrow> cs);
                  del_caps = set (case capabilities payload of None \<Rightarrow> [] | Some cs \<Rightarrow> cs)
              in if \<not> del_caps \<subseteq> orig_caps then
                   Inl (ValueError ''Delegated capabilities exceed original token's capabilities'')
                 else Inr payload),
           s'))"

section \<open>middleware.py\<close>

subsection \<open>SimpleCache\<close>

text \<open>The store is a dictionary; \<open>set\<close> takes a \<open>ttl\<close> argument and stores the value.\<close>

record ('k, 'v) SimpleCache =
  store :: "'k \<rightharpoonup> 'v"

definition cache_init :: "('k, 'v) SimpleCache" where
  "cache_init = \<lparr>store = Map.empty\<rparr>"

definition cache_get :: "('k, 'v) SimpleCache \<Rightarrow> 'k \<Rightarrow> 'v option" where
  "cache_get c key = store c key"

definition cache_set :: "('k, 'v) SimpleCache \<Rightarrow> 'k \<Rightarrow> 'v \<Rightarrow> int option \<Rightarrow> ('k, 'v) SimpleCache" where
  "cache_set c key val ttl = c\<lparr>store := (store c)(key \<mapsto> val)\<rparr>"

subsection \<open>CircuitBreaker\<close>

record CircuitBreaker =
  threshold :: int
  recovery_time :: int
  failure_count :: int
  last_failure_time :: "rat option"
  is_open :: bool

definition breaker_init :: "int \<Rightarrow> int \<Rightarrow> CircuitBreaker" where
  "breaker_init thr rec =
     \<lparr>threshold = thr, recovery_time = rec, failure_count = 0,
      last_failure_time = None, is_open = False\<rparr>"

text \<open>\<open>t\<close> is the reading of \<open>time.time()\<close> inside the method. Subtracting
  \<open>None\<close> raises \<open>TypeError\<close>.\<close>

definition before_call :: "rat \<Rightarrow> CircuitBreaker \<Rightarrow> py_exn + bool" where
  "before_call t cb =
     (if is_open cb then
        (case last_failure_time cb of
           None \<Rightarrow> Inl TypeError
         | Some lf \<Rightarrow> if t - lf > of_int (recovery_time cb) then Inr True else Inr False)
      else Inr True)"

definition after_call :: "rat \<Rightarrow> bool \<Rightarrow> CircuitBreaker \<Rightarrow> CircuitBreaker" where
  "after_call t success cb =
     (if success then cb\<lparr>failure_count := 0, is_open := False\<rparr>
      else
        (let cb1 = cb\<lparr>failure_count := failure_count cb + 1, last_failure_time := Some t\<rparr>
         in if failure_count cb1 \<ge> threshold cb1 then cb1\<lparr>is_open := True\<rparr> else cb1))"

section \<open>The RPC handlers\<close>

text \<open>
  A handler ends by returning its response or with a status code. \<open>context.abort\<close>
  records the code and raises an exception: inside a \<open>try\<close> whose handler catches
  \<open>Exception\<close> and aborts again, the later code is the one the caller sees. An
  exception that leaves the handler without an abort gives \<open>UNKNOWN\<close>.

  Every reading of \<open>time.time()\<close> inside one handler call is the \<open>now\<close> of the
  \<open>world\<close> the call is given. The telemetry sink is not modelled, but building a
  record reads \<open>payload["sub"]\<close>, which raises \<open>KeyError\<close> for a token without that
  claim.
\<close>

datatype StatusCode =
  PERMISSION_DENIED | UNAUTHENTICATED | UNAVAILABLE | INTERNAL | INVALID_ARGUMENT | UNKNOWN

definition subject :: "claims \<Rightarrow> py_exn + string" where
  "subject payload = (case sub payload of None \<Rightarrow> Inl (KeyError ''sub'') | Some s \<Rightarrow> Inr s)"

section \<open>context\_tool\_server.py\<close>

definition SERVER_NAME_context_tool :: string where
  "SERVER_NAME_context_tool = ''ContextToolServer''"

record ContextEntry =
  serialized_value :: string
  metadata_json :: "string option"

record ContextRequest =
  context_key :: string
  parameters :: "string \<rightharpoonup> string"
  capability_token :: string

record ContextResponse =
  resp_serialized_value :: string
  resp_metadata :: "string list"

text \<open>
  The cache key is the string built from the context key and the sorted tuple of the
  parameter items; the sorted tuple lists the parameter map canonically, and the model keys
  the cache by the pair of the context key and the map.
\<close>

type_synonym cache_key = "string \<times> (string \<rightharpoonup> string)"

record ctx_state =
  auth :: auth_state
  CIRCUIT :: CircuitBreaker
  CACHE :: "(cache_key, ContextResponse) SimpleCache"

definition ctx_init :: ctx_state where
  "ctx_init = \<lparr>auth = auth_init, CIRCUIT = breaker_init 3 30, CACHE = cache_init\<rparr>"

text \<open>
  \<open>json.loads\<close> and the conversion of the loaded value into the repeated
  \<open>metadata\<close> field by the generated message class are parameters. \<open>json.loads\<close> of
  an absent column value (\<open>None\<close>) raises \<open>TypeError\<close>; the bare \<open>except\<close> turns any
  exception of \<open>json.loads\<close> into the empty list.
\<close>

record 'j codec =
  json_loads :: "string \<Rightarrow> py_exn + 'j"
  metadata_field :: "'j \<Rightarrow> py_exn + string list"

definition load_metadata :: "'j codec \<Rightarrow> ContextEntry \<Rightarrow> py_exn + string list" where
  "load_metadata cd entry =
     (case metadata_json entry of
        None \<Rightarrow> Inr []
      | Some text \<Rightarrow>
          (case json_loads cd text of
             Inl e \<Rightarrow> Inr []
           | Inr loaded \<Rightarrow> metadata_field cd loaded))"

text \<open>Step 1 of \<open>RequestContext\<close>: both aborts with \<open>PERMISSION_DENIED\<close> are raised
  inside the \<open>try\<close> and end as \<open>UNAUTHENTICATED\<close>.\<close>

definition request_context_auth ::
  "jose \<Rightarrow> world \<Rightarrow> ContextRequest \<Rightarrow> auth_state \<Rightarrow> (StatusCode + claims) \<times> auth_state" where
  "request_context_auth lib w request a =
     (case verify_jwt_token lib w w (capability_token request) SERVER_NAME_context_tool a of
        (Inl e, a') \<Rightarrow> (Inl UNAUTHENTICATED, a')
      | (Inr payload, a') \<Rightarrow>
          (if \<not> has_capability payload ''db:inventory:read'' then (Inl UNAUTHENTICATED, a')
           else if \<not> has_audience payload SERVER_NAME_context_tool then (Inl UNAUTHENTICATED, a')
           else (Inr payload, a')))"

text \<open>The \<open>except Exception\<close> branch of step 4.\<close>

definition request_context_failed ::
  "world \<Rightarrow> claims \<Rightarrow> ctx_state \<Rightarrow> (StatusCode + ContextResponse) \<times> ctx_state" where
  "request_context_failed w payload st =
     (let st' = st\<lparr>CIRCUIT := after_call (now w) False (CIRCUIT st)\<rparr>
      in case subject payload of
           Inl e \<Rightarrow> (Inl UNKNOWN, st')
         | Inr client \<Rightarrow> (Inl INTERNAL, st'))"

text \<open>Steps 4 and 5: \<open>table\<close> is the answer of the relational store to
  \<open>session.get\<close>, an exception or the rows by key.\<close>

definition request_context_fetch ::
  "'j codec \<Rightarrow> world \<Rightarrow> (py_exn + (string \<rightharpoonup> ContextEntry)) \<Rightarrow> ContextRequest \<Rightarrow> claims
     \<Rightarrow> ctx_state \<Rightarrow> (StatusCode + ContextResponse) \<times> ctx_state" where
  "request_context_fetch cd w table request payload st =
     (case table of
        Inl e \<Rightarrow> request_context_failed w payload st
      | Inr rows \<Rightarrow>
          (case (case rows (context_key request) of
                   None \<Rightarrow> Inr ([], [])
                 | Some entry \<Rightarrow>
                     (case load_metadata cd entry of
                        Inl e \<Rightarrow> Inl e
                      | Inr metadata_list \<Rightarrow> Inr (serialized_value entry, metadata_list))) of
             Inl e \<Rightarrow> request_context_failed w payload st
           | Inr (serialized, metadata_list) \<Rightarrow>
               (let resp = \<lparr>resp_serialized_value = serialized, resp_metadata = metadata_list\<rparr>;
                    cache_key = (context_key request, parameters request);
                    st1 = st\<lparr>CACHE := cache_set (CACHE st) cache_key resp (Some 60)\<rparr>;
                    st2 = st1\<lparr>CIRCUIT := after_call (now w) True (CIRCUIT st1)\<rparr>
                in case subject payload of
                     Inl e \<Rightarrow> request_context_failed w payload st2
                   | Inr client \<Rightarrow> (Inr resp, st2))))"

definition RequestContext ::
  "jose \<Rightarrow> 'j codec \<Rightarrow> world \<Rightarrow> (py_exn + (string \<rightharpoonup> ContextEntry)) \<Rightarrow> ContextRequest
     \<Rightarrow> ctx_state \<Rightarrow> (StatusCode + ContextResponse) \<times> ctx_state" where
  "RequestContext lib cd w table request st =
     (case request_context_auth lib w request (auth st) of
        (Inl code, a) \<Rightarrow> (Inl code, st\<lparr>auth := a\<rparr>)
      | (Inr payload, a) \<Rightarrow>
          (let st1 = st\<lparr>auth := a\<rparr> in
           case before_call (now w) (CIRCUIT st1) of
             Inl e \<Rightarrow> (Inl UNKNOWN, st1)
           | Inr False \<Rightarrow>
               (case subject payload of
                  Inl e \<Rightarrow> (Inl UNKNOWN, st1)
                | Inr client \<Rightarrow> (Inl UNAVAILABLE, st1))
           | Inr True \<Rightarrow>
               (let cache_key = (context_key request, parameters request) in
                case cache_get (CACHE st1) cache_key of
                  Some cached_resp \<Rightarrow>
                    (case subject payload of
                       Inl e \<Rightarrow> (Inl UNKNOWN, st1)
                     | Inr client \<Rightarrow> (Inr cached_resp, st1))
                | None \<Rightarrow> request_context_fetch cd w table request payload st1)))"

subsection \<open>InvokeTool\<close>

record ToolRequest =
  tool_name :: string
  arguments :: "string \<rightharpoonup> string"
  capability_token_tool :: string
  agent_delegation_proof :: string

record ToolResponse =
  success_tool :: bool
  outputs :: "string \<rightharpoonup> string"
  warnings :: "string list"

text \<open>\<open>payload.get("capabilities", [])\<close>.\<close>

definition granted :: "claims \<Rightarrow> string list" where
  "granted payload = (case capabilities payload of None \<Rightarrow> [] | Some cs \<Rightarrow> cs)"

text \<open>The \<open>try\<close> block of \<open>InvokeTool\<close>; every abort and exception inside it ends as
  \<open>UNAUTHENTICATED\<close>. An absent delegation proof is the empty string.\<close>

definition invoke_tool_auth ::
  "jose \<Rightarrow> world \<Rightarrow> ToolRequest \<Rightarrow> auth_state \<Rightarrow> (StatusCode + claims) \<times> auth_state" where
  "invoke_tool_auth lib w request a =
     (case verify_jwt_token lib w w (capability_token_tool request) SERVER_NAME_context_tool a of
        (Inl e, a1) \<Rightarrow> (Inl UNAUTHENTICATED, a1)
      | (Inr payload, a1) \<Rightarrow>
          (let required_cap = ''tool:'' @ tool_name request in
           if \<not> has_capability payload required_cap then
             (let del_proof = agent_delegation_proof request in
              if del_proof = [] then (Inl UNAUTHENTICATED, a1)
              else
                (case verify_delegation_proof lib w w del_proof SERVER_NAME_context_tool payload a1 of
                   (Inl e, a2) \<Rightarrow> (Inl UNAUTHENTICATED, a2)
                 | (Inr delegated_payload, a2) \<Rightarrow>
                     if required_cap \<notin> set (granted delegated_payload)
                     then (Inl UNAUTHENTICATED, a2)
                     else if \<not> has_audience delegated_payload SERVER_NAME_context_tool
                     then (Inl UNAUTHENTICATED, a2)
                     else (Inr delegated_payload, a2)))
           else if \<not> has_audience payload SERVER_NAME_context_tool then (Inl UNAUTHENTICATED, a1)
           else (Inr payload, a1)))"

text \<open>The tool itself: outputs and warnings, or the exception of \<open>int\<close> or of the
  conversion of the stock count to a float.\<close>

definition run_tool :: "ToolRequest \<Rightarrow> py_exn + (string \<rightharpoonup> string) \<times> string list" where
  "run_tool request =
     (if tool_name request = ''compute_pricing'' then
        (case py_int (case arguments request ''stock_count'' of None \<Rightarrow> ''0'' | Some s \<Rightarrow> s) of
           Inl e \<Rightarrow> Inl e
         | Inr stock \<Rightarrow>
             (case recommended_price stock of
                Inl e \<Rightarrow> Inl e
              | Inr price \<Rightarrow> Inr ([''recommended_price'' \<mapsto> float_str price], [])))
      else Inr (Map.empty, [''Tool '' @ [CHR 0x27] @ tool_name request @ [CHR 0x27] @ '' not recognized'']))"

definition InvokeTool ::
  "jose \<Rightarrow> world \<Rightarrow> ToolRequest \<Rightarrow> ctx_state \<Rightarrow> (StatusCode + ToolResponse) \<times> ctx_state" where
  "InvokeTool lib w request st =
     (case invoke_tool_auth lib w request (auth st) of
        (Inl code, a) \<Rightarrow> (Inl code, st\<lparr>auth := a\<rparr>)
      | (Inr payload, a) \<Rightarrow>
          (let st1 = st\<lparr>auth := a\<rparr> in
           case before_call (now w) (CIRCUIT st1) of
             Inl e \<Rightarrow> (Inl UNKNOWN, st1)
           | Inr False \<Rightarrow>
               (case subject payload of
                  Inl e \<Rightarrow> (Inl UNKNOWN, st1)
                | Inr client \<Rightarrow> (Inl UNAVAILABLE, st1))
           | Inr True \<Rightarrow>
               (case run_tool request of
                  Inl e \<Rightarrow> (Inl UNKNOWN, st1)
                | Inr (outs, warns) \<Rightarrow>
                    (let st2 = st1\<lparr>CIRCUIT := after_call (now w) True (CIRCUIT st1)\<rparr>
                     in case subject payload of
                          Inl e \<Rightarrow> (Inl UNKNOWN, st2)
                        | Inr client \<Rightarrow>
                            (Inr \<lparr>success_tool = True, outputs = outs, warnings = warns\<rparr>,
                             st2)))))"

subsection \<open>Admission of the streaming calls\<close>




section \<open>registry\_server.py\<close>

definition SERVER_NAME_registry :: string where
  "SERVER_NAME_registry = ''RegistryServer''"

definition redis_key_for :: "string \<Rightarrow> string" where
  "redis_key_for name = ''mcp2:registry:'' @ name"

record registry_value =
  grpc_url :: string
  reg_capabilities :: "string list"
  registered_at :: rat

definition after_colon :: "string \<Rightarrow> string option" where
  "after_colon s = (case dropWhile (\<lambda>c. c \<noteq> CHR '':'') s of [] \<Rightarrow> None | c # rest \<Rightarrow> Some rest)"

definition split2_last :: "string \<Rightarrow> string" where
  "split2_last key =
     (case after_colon key of
        None \<Rightarrow> key
      | Some r1 \<Rightarrow> (case after_colon r1 of None \<Rightarrow> r1 | Some r2 \<Rightarrow> r2))"

record endpoint =
  server_name :: string
  ep_grpc_url :: string
  ep_capabilities :: "string list"

fun filter_loop :: "string list \<Rightarrow> string list \<Rightarrow> bool" where
  "filter_loop [] caps = False"
| "filter_loop (cap_filter # rest) caps =
     (if cap_loop caps cap_filter then True else filter_loop rest caps)"

fun lookup_in_redis :: "string list \<Rightarrow> (string \<times> registry_value) list \<Rightarrow> endpoint list" where
  "lookup_in_redis cap_filters [] = []"
| "lookup_in_redis cap_filters ((key, data) # rest) =
     (let name = split2_last key;
          caps = reg_capabilities data
      in (if filter_loop cap_filters caps
          then [\<lparr>server_name = name, ep_grpc_url = grpc_url data, ep_capabilities = caps\<rparr>]
          else [])
         @ lookup_in_redis cap_filters rest)"

record LookupRequest =
  requester_token :: string
  capability_filter :: "string list"

definition Lookup ::
  "jose \<Rightarrow> world \<Rightarrow> (py_exn + (string \<times> registry_value) list) \<Rightarrow> LookupRequest \<Rightarrow> auth_state
     \<Rightarrow> (StatusCode + endpoint list) \<times> auth_state" where
  "Lookup lib w redis request a =
     (if requester_token request = [] then (Inl UNAUTHENTICATED, a)
      else
        (case verify_jwt_token lib w w (requester_token request) SERVER_NAME_registry a of
           (Inl e, a') \<Rightarrow> (Inl UNAUTHENTICATED, a')
         | (Inr payload, a') \<Rightarrow>
             (if \<not> has_capability payload ''registry:lookup'' then (Inl UNAUTHENTICATED, a')
              else
                (case redis of
                   Inl e \<Rightarrow> (Inl UNAUTHENTICATED, a')
                 | Inr records \<Rightarrow>
                     (let matches = lookup_in_redis (capability_filter request) records;
                          endpoints = filter (\<lambda>entry. has_audience payload (server_name entry)) matches
                      in case subject payload of
                           Inl e \<Rightarrow> (Inl UNAUTHENTICATED, a')
                         | Inr client \<Rightarrow> (Inr endpoints, a'))))))"

subsection \<open>Register\<close>






section \<open>event\_bus\_server.py\<close>

definition SERVER_NAME_event_bus :: string where
  "SERVER_NAME_event_bus = ''EventBusServer''"

record EventPublishRequest =
  topic :: string
  payload_bytes :: string
  publisher_token :: string

record envelope =
  env_topic :: string
  env_payload :: string
  sequence_id :: int
  timestamp :: rat

record EventPublishResponse =
  success :: bool
  message :: string

record bus_state =
  bus_auth :: auth_state
  TOPIC_COUNTER :: "string \<rightharpoonup> int"
  broker :: "(string \<times> envelope) list"

definition bus_init :: bus_state where
  "bus_init = \<lparr>bus_auth = auth_init, TOPIC_COUNTER = Map.empty, broker = []\<rparr>"

definition first_segment :: "string \<Rightarrow> string" where
  "first_segment t = takeWhile (\<lambda>c. c \<noteq> CHR '':'') t"

definition publish_auth ::
  "jose \<Rightarrow> world \<Rightarrow> EventPublishRequest \<Rightarrow> auth_state \<Rightarrow> (StatusCode + claims) \<times> auth_state" where
  "publish_auth lib w request a =
     (case verify_jwt_token lib w w (publisher_token request) SERVER_NAME_event_bus a of
        (Inl e, a') \<Rightarrow> (Inl UNAUTHENTICATED, a')
      | (Inr payload, a') \<Rightarrow>
          (let required_cap = ''event:publish:'' @ topic request in
           if \<not> has_capability payload required_cap
              \<and> (let prefix = first_segment (topic request);
                      wildcard = ''event:publish:'' @ prefix @ ''*''
                  in \<not> has_capability payload wildcard)
           then (Inl UNAUTHENTICATED, a')
           else if \<not> has_audience payload SERVER_NAME_event_bus then (Inl UNAUTHENTICATED, a')
           else (Inr payload, a')))"

definition Publish ::
  "jose \<Rightarrow> (string \<Rightarrow> string) \<Rightarrow> world \<Rightarrow> bool \<Rightarrow> EventPublishRequest \<Rightarrow> bus_state
     \<Rightarrow> (StatusCode + EventPublishResponse) \<times> bus_state" where
  "Publish lib utf8_ignore w broker_up request st =
     (case publish_auth lib w request (bus_auth st) of
        (Inl code, a) \<Rightarrow> (Inl code, st\<lparr>bus_auth := a\<rparr>)
      | (Inr payload, a) \<Rightarrow>
          (let seq = (case TOPIC_COUNTER st (topic request) of None \<Rightarrow> 0 | Some n \<Rightarrow> n) + 1;
               st1 = st\<lparr>bus_auth := a, TOPIC_COUNTER := (TOPIC_COUNTER st)(topic request \<mapsto> seq)\<rparr>;
               channel = ''mcp2:event:'' @ topic request;
               msg = \<lparr>env_topic = topic request, env_payload = utf8_ignore (payload_bytes request),
                      sequence_id = seq, timestamp = now w\<rparr>
           in if \<not> broker_up then (Inl UNKNOWN, st1)
              else
                (let st2 = st1\<lparr>broker := broker st1 @ [(channel, msg)]\<rparr>
                 in case subject payload of
                      Inl e \<Rightarrow> (Inl UNKNOWN, st2)
                    | Inr client \<Rightarrow> (Inr \<lparr>success = True, message = ''Published''\<rparr>, st2))))"

subsection \<open>Admission of Subscribe\<close>



subsection \<open>Runs of Publish\<close>

text \<open>
  A call is authorized when the authorization stage of \<open>Publish\<close> lets it through.
  \<open>publish_all\<close> runs a list of calls one after the other from a state, each with the
  world it observes and with a broker that accepts the message; \<open>sequence_ids t\<close> lists,
  in the order of arrival at the broker, the sequence numbers of the envelopes of topic
  \<open>t\<close>, and \<open>published_to t\<close> counts the calls to topic \<open>t\<close>.
\<close>

definition authorized :: "jose \<Rightarrow> world \<Rightarrow> EventPublishRequest \<Rightarrow> auth_state \<Rightarrow> bool" where
  "authorized lib w request a =
     (case fst (publish_auth lib w request a) of Inl code \<Rightarrow> False | Inr payload \<Rightarrow> True)"

text \<open>A run of calls, each with the world it observes; the broker accepts every message.\<close>

fun publish_all ::
  "jose \<Rightarrow> (string \<Rightarrow> string) \<Rightarrow> (world \<times> EventPublishRequest) list \<Rightarrow> bus_state \<Rightarrow> bus_state" where
  "publish_all lib dec [] st = st"
| "publish_all lib dec ((w, request) # calls) st =
     publish_all lib dec calls (snd (Publish lib dec w True request st))"

fun all_authorized :: "jose \<Rightarrow> (string \<Rightarrow> string) \<Rightarrow> (world \<times> EventPublishRequest) list \<Rightarrow> bus_state \<Rightarrow> bool" where
  "all_authorized lib dec [] st = True"
| "all_authorized lib dec ((w, request) # calls) st =
     (authorized lib w request (bus_auth st)
      \<and> all_authorized lib dec calls (snd (Publish lib dec w True request st)))"

definition sequence_ids :: "string \<Rightarrow> bus_state \<Rightarrow> int list" where
  "sequence_ids t st = map sequence_id (filter (\<lambda>m. env_topic m = t) (map snd (broker st)))"

definition published_to :: "string \<Rightarrow> (world \<times> EventPublishRequest) list \<Rightarrow> nat" where
  "published_to t calls = length (filter (\<lambda>c. topic (snd c) = t) calls)"

text \<open>The invariant: per topic the counter is the number of envelopes sent, numbered from 1.\<close>

definition counted :: "bus_state \<Rightarrow> bool" where
  "counted st \<longleftrightarrow>
     (\<forall>t. sequence_ids t st = [1 .. (case TOPIC_COUNTER st t of None \<Rightarrow> 0 | Some n \<Rightarrow> n)]
          \<and> (case TOPIC_COUNTER st t of None \<Rightarrow> True | Some n \<Rightarrow> 0 \<le> n))"

section \<open>Registered records\<close>

text \<open>
  A registered record is a server name with the value \<open>register_in_redis\<close> writes for
  it; \<open>stored\<close> is the key and value under which the store holds it, and
  \<open>descriptor\<close> the endpoint that describes it.
\<close>

definition stored :: "string \<times> registry_value \<Rightarrow> string \<times> registry_value" where
  "stored r = (redis_key_for (fst r), snd r)"

definition descriptor :: "string \<times> registry_value \<Rightarrow> endpoint" where
  "descriptor r = \<lparr>server_name = fst r, ep_grpc_url = grpc_url (snd r),
                   ep_capabilities = reg_capabilities (snd r)\<rparr>"

section \<open>Scenario data\<close>

text \<open>
  Concrete inputs on which the model is run: a run of failed calls on a breaker, a stand-in
  for the JOSE library that knows a table of token strings (each with the \<open>kid\<close> of its
  header and its payload; it rejects a token it does not know, a key that is not the
  token's, a payload whose \<open>iss\<close> is not the issuer asked for, and a payload whose
  \<open>aud\<close> does not hold the audience asked for), key sets, a stand-in for
  \<open>json.loads\<close> and the message class that knows the texts \<open>[]\<close> and \<open>NaN\<close>
  (which \<open>json.loads\<close> reads as a float, and a float is no value for a repeated field) and
  rejects every other text, and a request for the stock count of the demonstration client.
\<close>

definition record_failures :: "rat list \<Rightarrow> CircuitBreaker \<Rightarrow> CircuitBreaker" where
  "record_failures ts cb = fold (\<lambda>t. after_call t False) ts cb"

definition table_jose :: "(string \<rightharpoonup> string \<times> claims) \<Rightarrow> jose" where
  "table_jose tokens =
     \<lparr>get_unverified_header =
        (\<lambda>token. case tokens token of
                    None \<Rightarrow> Inl (JWTError ''Error decoding token headers.'')
                  | Some (k, payload) \<Rightarrow> Inr (Some k)),
      decode =
        (\<lambda>token key audience issuer.
           case tokens token of
             None \<Rightarrow> Inl (JWTError ''Error decoding token headers.'')
           | Some (k, payload) \<Rightarrow>
               if kid key \<noteq> k then Inl (JWTError ''Signature verification failed.'')
               else if iss payload \<noteq> Some issuer then Inl (JWTError ''Invalid issuer'')
               else if (case aud payload of
                          None \<Rightarrow> False
                        | Some (AudStr a) \<Rightarrow> a = audience
                        | Some (AudList as) \<Rightarrow> audience \<in> set as)
               then Inr payload
               else Inl (JWTError ''Invalid audience''))\<rparr>"

definition key1 :: jwk where
  "key1 = \<lparr>kid = ''k1'', material = ''rsa-1''\<rparr>"

definition key2 :: jwk where
  "key2 = \<lparr>kid = ''k2'', material = ''rsa-2''\<rparr>"

definition idp_at :: "rat \<Rightarrow> world" where
  "idp_at t = \<lparr>now = t, jwks_endpoint = Inr [key1]\<rparr>"

definition rotated_idp :: "rat \<Rightarrow> world" where
  "rotated_idp t = \<lparr>now = t, jwks_endpoint = Inr [key1, key2]\<rparr>"

definition stale_keys :: auth_state where
  "stale_keys = \<lparr>JWKS_CACHE = Some [key1], JWKS_LAST_FETCH = 1000\<rparr>"

definition reader :: claims where
  "reader = \<lparr>iss = Some OIDC_ISSUER, sub = Some ''agent-7'',
             aud = Some (AudStr ''ContextToolServer''),
             capabilities = Some [''db:inventory:*''], delegatee = None\<rparr>"

definition reader_tokens :: "string \<rightharpoonup> string \<times> claims" where
  "reader_tokens = [''reader-token'' \<mapsto> (''k1'', reader)]"

datatype loaded = Loaded_list "string list" | Loaded_nan

definition strict_codec :: "loaded codec" where
  "strict_codec =
     \<lparr>json_loads =
        (\<lambda>text. if text = ''[]'' then Inr (Loaded_list [])
                else if text = ''NaN'' then Inr Loaded_nan
                else Inl (ValueError ''Expecting value'')),
      metadata_field =
        (\<lambda>v. case v of Loaded_list items \<Rightarrow> Inr items | Loaded_nan \<Rightarrow> Inl TypeError)\<rparr>"

definition stock_request :: ContextRequest where
  "stock_request =
     \<lparr>context_key = ''inventory:prod_12345:stock_count'', parameters = Map.empty,
      capability_token = ''reader-token''\<rparr>"

definition stock_rows :: "string \<Rightarrow> string option \<Rightarrow> (string \<rightharpoonup> ContextEntry)" where
  "stock_rows v m = [''inventory:prod_12345:stock_count'' \<mapsto> \<lparr>serialized_value = v, metadata_json = m\<rparr>]"

definition tripped :: CircuitBreaker where
  "tripped = record_failures [0, 1, 2] (breaker_init 3 30)"

definition looker :: claims where
  "looker = \<lparr>iss = Some OIDC_ISSUER, sub = Some ''agent-7'',
             aud = Some (AudList [''RegistryServer'', ''A'']),
             capabilities = Some [''registry:lookup''], delegatee = None\<rparr>"

definition looker_only_A :: claims where
  "looker_only_A = \<lparr>iss = Some OIDC_ISSUER, sub = Some ''agent-7'', aud = Some (AudList [''A'']),
                    capabilities = Some [''registry:lookup''], delegatee = None\<rparr>"

definition lookup_request :: LookupRequest where
  "lookup_request = \<lparr>requester_token = ''lookup-token'', capability_filter = [''db:inventory:read'']\<rparr>"

definition record_A :: registry_value where
  "record_A = \<lparr>grpc_url = ''10.0.0.1:50051'', reg_capabilities = [''telemetry:read'', ''db:inventory:read''],
               registered_at = 1\<rparr>"

definition record_B :: registry_value where
  "record_B = \<lparr>grpc_url = ''10.0.0.2:50051'', reg_capabilities = [''db:*''], registered_at = 2\<rparr>"

definition publisher :: claims where
  "publisher = \<lparr>iss = Some OIDC_ISSUER, sub = Some ''agent-7'', aud = Some (AudStr ''EventBusServer''),
                capabilities = Some [''event:publish:*''], delegatee = None\<rparr>"

definition publish_request :: "string \<Rightarrow> EventPublishRequest" where
  "publish_request t = \<lparr>topic = t, payload_bytes = ''{}'', publisher_token = ''publisher-token''\<rparr>"

definition interleaved :: "(world \<times> EventPublishRequest) list" where
  "interleaved = [(idp_at 1, publish_request ''inventory:low_stock''),
                  (idp_at 2, publish_request ''orders:new''),
                  (idp_at 3, publish_request ''inventory:low_stock'')]"

definition publisher_lib :: jose where
  "publisher_lib = table_jose [''publisher-token'' \<mapsto> (''k1'', publisher)]"

definition wildcard_parent :: claims where
  "wildcard_parent =
     \<lparr>iss = Some OIDC_ISSUER, sub = Some ''agent-7'', aud = Some (AudStr ''ContextToolServer''),
      capabilities = Some [''tool:*''], delegatee = None\<rparr>"

definition listing_parent :: claims where
  "listing_parent =
     \<lparr>iss = Some OIDC_ISSUER, sub = Some ''agent-7'', aud = Some (AudStr ''ContextToolServer''),
      capabilities = Some [''tool:compute_pricing'', ''telemetry:read''], delegatee = None\<rparr>"

definition pricing_delegation :: claims where
  "pricing_delegation =
     \<lparr>iss = Some OIDC_ISSUER, sub = Some ''agent-7'', aud = Some (AudStr ''ContextToolServer''),
      capabilities = Some [''tool:compute_pricing''], delegatee = Some ''ContextToolServer''\<rparr>"

definition tool_lib :: jose where
  "tool_lib = table_jose [''parent-token'' \<mapsto> (''k1'', wildcard_parent),
                          ''delegation-token'' \<mapsto> (''k1'', pricing_delegation)]"

definition pricing_request :: ToolRequest where
  "pricing_request =
     \<lparr>tool_name = ''compute_pricing'',
      arguments = [''sku'' \<mapsto> ''x'', ''stock_count'' \<mapsto> ''10''],
      capability_token_tool = ''parent-token'',
      agent_delegation_proof = ''delegation-token''\<rparr>"




section \<open>Properties\<close>

lemma cap_loop_iff: "cap_loop caps required \<longleftrightarrow> (\<exists>g \<in> set caps. cap_matches g required)"
  by (induction caps) auto

lemma cap_matches_iff:
  "cap_matches g r \<longleftrightarrow> g = r \<or> (endswith g ''*'' \<and> startswith r (drop_last g))"
  by (simp add: cap_matches_def)

lemmas string_ops = endswith_def startswith_def drop_last_def suffix_to_prefix

lemmas auth_eval = verify_jwt_token_def fetch_jwks_def refresh_jwks_def table_jose_def idp_at_def key1_def key2_def
  auth_init_def has_capability_def has_audience_def cap_matches_def string_ops
  JWKS_TTL_SECONDS_def subject_def

lemmas breaker_eval = before_call_def after_call_def breaker_init_def record_failures_def

lemmas ctx_eval = RequestContext_def request_context_auth_def request_context_fetch_def
  request_context_failed_def load_metadata_def cache_get_def cache_set_def cache_init_def
  ctx_init_def SERVER_NAME_context_tool_def stock_request_def stock_rows_def strict_codec_def
  reader_def reader_tokens_def Let_def

subsection \<open>Capability matcher\<close>

text \<open>
  Claim C5. For a payload whose \<open>capabilities\<close> entry is the list \<open>G\<close> and a required
  string \<open>R\<close>, \<open>has_capability\<close> is true exactly when some \<open>g\<close> in \<open>G\<close> equals \<open>R\<close>,
  or ends with a star and \<open>R\<close> starts with \<open>g\<close> less its last character. Nothing else
  grants, and a bare star in \<open>G\<close> grants every \<open>R\<close>.
\<close>

theorem capability_matcher_iff:
  assumes "capabilities payload = Some G"
  shows "(has_capability payload R \<longleftrightarrow>
            (\<exists>g \<in> set G. g = R \<or> (endswith g ''*'' \<and> startswith R (drop_last g))))
         \<and> (''*'' \<in> set G \<longrightarrow> has_capability payload R)"
proof -
  have iff: "has_capability payload R \<longleftrightarrow>
            (\<exists>g \<in> set G. g = R \<or> (endswith g ''*'' \<and> startswith R (drop_last g)))"
    using assms by (simp add: has_capability_def cap_loop_iff cap_matches_iff)
  have star: "endswith ''*'' ''*'' \<and> startswith R (drop_last ''*'')"
    by (simp add: endswith_def startswith_def drop_last_def)
  from iff star show ?thesis by blast
qed

theorem capability_matcher_iff_witness:
  "has_capability \<lparr>iss = None, sub = None, aud = None,
                    capabilities = Some [''telemetry:read'', ''db:inventory:*''], delegatee = None\<rparr>
     ''db:inventory:read''
   \<and> \<not> has_capability \<lparr>iss = None, sub = None, aud = None,
                    capabilities = Some [''telemetry:read'', ''db:*:read''], delegatee = None\<rparr>
     ''db:inventory:read''
   \<and> has_capability \<lparr>iss = None, sub = None, aud = None,
                    capabilities = Some [''*''], delegatee = None\<rparr> ''registry:lookup''"
  using capability_matcher_iff
          [where payload = "\<lparr>iss = None, sub = None, aud = None,
                    capabilities = Some [''telemetry:read'', ''db:inventory:*''], delegatee = None\<rparr>"
             and G = "[''telemetry:read'', ''db:inventory:*'']" and R = "''db:inventory:read''"]
        capability_matcher_iff
          [where payload = "\<lparr>iss = None, sub = None, aud = None,
                    capabilities = Some [''telemetry:read'', ''db:*:read''], delegatee = None\<rparr>"
             and G = "[''telemetry:read'', ''db:*:read'']" and R = "''db:inventory:read''"]
        capability_matcher_iff
          [where payload = "\<lparr>iss = None, sub = None, aud = None,
                    capabilities = Some [''*''], delegatee = None\<rparr>"
             and G = "[''*'']" and R = "''registry:lookup''"]
  by (simp add: endswith_def startswith_def drop_last_def suffix_to_prefix)





subsection \<open>Circuit breaker\<close>

text \<open>
  Claim C8. Whatever the breaker's state, \<open>after_call\<close> with \<open>success = True\<close> leaves it
  closed with a failure count of zero.
\<close>

theorem success_closes_breaker:
  "is_open (after_call t True cb) = False \<and> failure_count (after_call t True cb) = 0"
  by (simp add: after_call_def)

text \<open>How a run of failed calls leaves the breaker.\<close>

lemma after_call_False_fields:
  "threshold (after_call t False cb) = threshold cb"
  "recovery_time (after_call t False cb) = recovery_time cb"
  "failure_count (after_call t False cb) = failure_count cb + 1"
  "last_failure_time (after_call t False cb) = Some t"
  "is_open (after_call t False cb) \<longleftrightarrow> is_open cb \<or> threshold cb \<le> failure_count cb + 1"
  by (simp_all add: after_call_def Let_def)

lemma record_failures_snoc:
  "record_failures (ts @ [t]) cb = after_call t False (record_failures ts cb)"
  by (simp add: record_failures_def)

lemma record_failures_count:
  "failure_count (record_failures ts cb) = failure_count cb + int (length ts)
   \<and> threshold (record_failures ts cb) = threshold cb
   \<and> recovery_time (record_failures ts cb) = recovery_time cb"
  by (induction ts rule: rev_induct)
     (simp_all add: record_failures_snoc after_call_False_fields, simp add: record_failures_def)

lemma record_failures_trips:
  assumes "ts \<noteq> []" "threshold cb \<le> int (length ts)" "0 \<le> failure_count cb"
  shows "is_open (record_failures ts cb) \<and> last_failure_time (record_failures ts cb) = Some (last ts)"
proof -
  from assms(1) obtain us u where ts: "ts = us @ [u]"
    by (cases ts rule: rev_cases) auto
  have "failure_count (record_failures us cb) = failure_count cb + int (length us)"
       "threshold (record_failures us cb) = threshold cb"
    using record_failures_count[of us cb] by simp_all
  with assms(2,3) ts show ?thesis
    by (simp add: record_failures_snoc after_call_False_fields)
qed

text \<open>
  Claim C3, amended. Take a breaker whose failure count is not negative and record on it
  a run of failures, one at least, as many as the threshold or more; \<open>last ts\<close> is the
  time of the last one. Then the breaker is open. A call no later than \<open>recovery_time\<close>
  after the last failure is rejected by \<open>before_call\<close>, and \<open>RequestContext\<close>, for a
  caller that passed the authorization stage with a token carrying \<open>sub\<close>, ends with
  \<open>UNAVAILABLE\<close> whatever the store would answer, leaving breaker and cache as they
  were. A call strictly later than \<open>recovery_time\<close> after the last failure is admitted. A
  success recorded then closes the breaker and sets the count to zero; a failure recorded
  then leaves it open with \<open>last_failure_time\<close> at the time of that failure.
\<close>

theorem breaker_trips_and_recovers:
  assumes fails: "ts \<noteq> []" "threshold cb \<le> int (length ts)" "0 \<le> failure_count cb"
    and authd: "request_context_auth lib w request (auth st) = (Inr payload, a)"
               "sub payload = Some client"
    and circ: "CIRCUIT st = record_failures ts cb"
  shows "is_open (record_failures ts cb)
    \<and> (t - last ts \<le> of_int (recovery_time cb) \<longrightarrow>
          before_call t (record_failures ts cb) = Inr False)
    \<and> (now w - last ts \<le> of_int (recovery_time cb) \<longrightarrow>
          RequestContext lib cd w table request st = (Inl UNAVAILABLE, st\<lparr>auth := a\<rparr>))
    \<and> (t - last ts > of_int (recovery_time cb) \<longrightarrow>
          before_call t (record_failures ts cb) = Inr True)
    \<and> (\<not> is_open (after_call t True (record_failures ts cb))
          \<and> failure_count (after_call t True (record_failures ts cb)) = 0)
    \<and> (is_open (after_call t False (record_failures ts cb))
          \<and> last_failure_time (after_call t False (record_failures ts cb)) = Some t)"
proof -
  let ?cb = "record_failures ts cb"
  have trip: "is_open ?cb" "last_failure_time ?cb = Some (last ts)"
    using record_failures_trips[OF fails] by simp_all
  have rec: "recovery_time ?cb = recovery_time cb"
    using record_failures_count[of ts cb] by simp
  have within: "before_call u ?cb = Inr False" if "u - last ts \<le> of_int (recovery_time cb)" for u
    using that trip rec by (simp add: before_call_def)
  have later: "before_call u ?cb = Inr True" if "u - last ts > of_int (recovery_time cb)" for u
    using that trip rec by (simp add: before_call_def)
  have rpc: "RequestContext lib cd w table request st = (Inl UNAVAILABLE, st\<lparr>auth := a\<rparr>)"
    if "now w - last ts \<le> of_int (recovery_time cb)"
    using within[OF that] authd circ by (simp add: RequestContext_def subject_def)
  have ok: "\<not> is_open (after_call t True ?cb) \<and> failure_count (after_call t True ?cb) = 0"
    by (simp add: after_call_def)
  have bad: "is_open (after_call t False ?cb) \<and> last_failure_time (after_call t False ?cb) = Some t"
    using trip by (simp add: after_call_False_fields)
  from trip(1) within later rpc ok bad show ?thesis by blast
qed

theorem breaker_trips_and_recovers_witness:
  "is_open tripped
   \<and> before_call 20 tripped = Inr False
   \<and> RequestContext (table_jose reader_tokens) strict_codec (idp_at 20) (Inr (stock_rows ''42'' None))
        stock_request (ctx_init\<lparr>CIRCUIT := tripped\<rparr>)
      = (Inl UNAVAILABLE,
         ctx_init\<lparr>CIRCUIT := tripped, auth := \<lparr>JWKS_CACHE = Some [key1], JWKS_LAST_FETCH = 20\<rparr>\<rparr>)
   \<and> before_call 40 tripped = Inr True
   \<and> \<not> is_open (after_call 40 True tripped) \<and> failure_count (after_call 40 True tripped) = 0
   \<and> is_open (after_call 40 False tripped) \<and> last_failure_time (after_call 40 False tripped) = Some 40"
proof -
  have a: "request_context_auth (table_jose reader_tokens) (idp_at 20) stock_request
             (auth (ctx_init\<lparr>CIRCUIT := tripped\<rparr>))
           = (Inr reader, \<lparr>JWKS_CACHE = Some [key1], JWKS_LAST_FETCH = 20\<rparr>)"
    by (simp add: ctx_eval auth_eval)
  have s: "sub reader = Some ''agent-7''" by (simp add: reader_def)
  have c: "CIRCUIT (ctx_init\<lparr>CIRCUIT := tripped\<rparr>) = record_failures [0, 1, 2] (breaker_init 3 30)"
    by (simp add: tripped_def)
  have f: "[0, 1, 2 :: rat] \<noteq> []" "threshold (breaker_init 3 30) \<le> int (length [0, 1, 2 :: rat])"
          "0 \<le> failure_count (breaker_init 3 30)"
    by (simp_all add: breaker_init_def)
  show ?thesis
    using breaker_trips_and_recovers[OF f a s c, where t = 20 and cd = strict_codec
            and table = "Inr (stock_rows ''42'' None)"]
          breaker_trips_and_recovers[OF f a s c, where t = 40 and cd = strict_codec
            and table = "Inr (stock_rows ''42'' None)"]
    by (simp add: tripped_def breaker_init_def idp_at_def)
qed

text \<open>
  Claim C3 as stated admits the first call at least \<open>recovery_time\<close> after the last
  failure. With threshold 3 and recovery time 30, after failures at times 0, 1 and 2, a
  call at time 32 is exactly 30 after the last failure, and \<open>before_call\<close> rejects it.
\<close>

theorem probe_at_recovery_time_rejected:
  "is_open tripped \<and> last_failure_time tripped = Some 2
   \<and> of_int (recovery_time tripped) \<le> (32 :: rat) - 2
   \<and> before_call 32 tripped = Inr False"
  by (simp add: tripped_def breaker_eval)

subsection \<open>Response cache\<close>

text \<open>
  Claim C4 at a concrete input. A first \<open>RequestContext\<close> at time 0 reads the row
  \<open>42\<close> and installs the response with \<open>ttl = 60\<close>. The same request at time 1000,
  when the row holds \<open>43\<close>, is answered with the response built at time 0.
\<close>

theorem cached_response_served_after_ttl:
  "fst (RequestContext (table_jose reader_tokens) strict_codec (idp_at 1000)
          (Inr (stock_rows ''43'' None)) stock_request
          (snd (RequestContext (table_jose reader_tokens) strict_codec (idp_at 0)
                  (Inr (stock_rows ''42'' None)) stock_request ctx_init)))
   = Inr \<lparr>resp_serialized_value = ''42'', resp_metadata = []\<rparr>"
  by (simp add: ctx_eval auth_eval breaker_eval)

subsection \<open>Key set refresh\<close>

text \<open>
  Claim C2 at a concrete input. The cached key set holds \<open>k1\<close> and was fetched at time
  1000; at time 2000 the discovery endpoint serves \<open>k1\<close> and \<open>k2\<close>. A token signed
  with \<open>k2\<close> is refused with the unknown-kid error and the cache is left as it was,
  although the key set of the endpoint holds \<open>k2\<close>.
\<close>

theorem unknown_kid_not_refreshed:
  "verify_jwt_token (table_jose [''new-token'' \<mapsto> (''k2'', reader)]) (rotated_idp 2000)
     (rotated_idp 2001) ''new-token'' ''ContextToolServer'' stale_keys
   = (Inl (JWTError ''Unable to find matching JWK for kid: k2''), stale_keys)
   \<and> find_key [key1, key2] ''k2'' = Some key2"
  by (simp add: auth_eval rotated_idp_def stale_keys_def)

subsection \<open>RequestContext and unreadable metadata\<close>

text \<open>
  Claim C10, amended. Let a call of \<open>RequestContext\<close> pass the authorization stage
  with a token carrying \<open>sub\<close>, be admitted by the breaker and miss the cache, and let
  the store hold a row for the key. If the row's \<open>metadata_json\<close> is absent, or is a
  text on which \<open>json.loads\<close> raises, the call returns the row's
  \<open>serialized_value\<close> with the empty metadata list.
\<close>

theorem broken_metadata_served_empty:
  assumes authd: "request_context_auth lib w request (auth st) = (Inr payload, a)"
                 "sub payload = Some client"
    and admitted: "before_call (now w) (CIRCUIT st) = Inr True"
    and miss: "cache_get (CACHE st) (context_key request, parameters request) = None"
    and row: "rows (context_key request) = Some entry"
    and broken: "metadata_json entry = None
                 \<or> (\<exists>text e. metadata_json entry = Some text \<and> json_loads cd text = Inl e)"
  shows "fst (RequestContext lib cd w (Inr rows) request st)
           = Inr \<lparr>resp_serialized_value = serialized_value entry, resp_metadata = []\<rparr>"
proof -
  from broken have "load_metadata cd entry = Inr []"
    by (auto simp add: load_metadata_def)
  with authd admitted miss row show ?thesis
    by (simp add: RequestContext_def request_context_fetch_def subject_def Let_def)
qed

theorem broken_metadata_served_empty_witness:
  "fst (RequestContext (table_jose reader_tokens) strict_codec (idp_at 5)
          (Inr (stock_rows ''42'' None)) stock_request ctx_init)
     = Inr \<lparr>resp_serialized_value = ''42'', resp_metadata = []\<rparr>
   \<and> fst (RequestContext (table_jose reader_tokens) strict_codec (idp_at 5)
          (Inr (stock_rows ''42'' (Some ''{not json''))) stock_request ctx_init)
     = Inr \<lparr>resp_serialized_value = ''42'', resp_metadata = []\<rparr>"
proof -
  have a: "request_context_auth (table_jose reader_tokens) (idp_at 5) stock_request (auth ctx_init)
           = (Inr reader, \<lparr>JWKS_CACHE = Some [key1], JWKS_LAST_FETCH = 5\<rparr>)"
    by (simp add: ctx_eval auth_eval)
  have s: "sub reader = Some ''agent-7''" by (simp add: reader_def)
  have b: "before_call (now (idp_at 5)) (CIRCUIT ctx_init) = Inr True"
    by (simp add: ctx_eval breaker_eval)
  have m: "cache_get (CACHE ctx_init) (context_key stock_request, parameters stock_request) = None"
    by (simp add: ctx_eval)
  have r1: "stock_rows ''42'' None (context_key stock_request)
              = Some \<lparr>serialized_value = ''42'', metadata_json = None\<rparr>"
    by (simp add: ctx_eval)
  have r2: "stock_rows ''42'' (Some ''{not json'') (context_key stock_request)
              = Some \<lparr>serialized_value = ''42'', metadata_json = Some ''{not json''\<rparr>"
    by (simp add: ctx_eval)
  have j1: "metadata_json \<lparr>serialized_value = ''42'', metadata_json = None\<rparr> = None
            \<or> (\<exists>text e. metadata_json \<lparr>serialized_value = ''42'', metadata_json = None\<rparr> = Some text
                  \<and> json_loads strict_codec text = Inl e)"
    by simp
  have j2: "metadata_json \<lparr>serialized_value = ''42'', metadata_json = Some ''{not json''\<rparr> = None
            \<or> (\<exists>text e. metadata_json \<lparr>serialized_value = ''42'', metadata_json = Some ''{not json''\<rparr>
                    = Some text \<and> json_loads strict_codec text = Inl e)"
    by (simp add: strict_codec_def)
  show ?thesis
    using broken_metadata_served_empty
            [where rows = "stock_rows ''42'' None" and cd = strict_codec, OF a s b m r1 j1]
          broken_metadata_served_empty
            [where rows = "stock_rows ''42'' (Some ''{not json'')" and cd = strict_codec,
             OF a s b m r2 j2]
    by simp
qed

text \<open>
  Claim C10 as stated covers every \<open>metadata_json\<close> that is not valid JSON. The text
  \<open>NaN\<close> is not valid JSON, yet \<open>json.loads\<close> reads it as a float and raises
  nothing; building the response from a float fails, and the call ends \<open>INTERNAL\<close> with
  a failure recorded on the breaker.
\<close>

theorem nan_metadata_ends_internal:
  "fst (RequestContext (table_jose reader_tokens) strict_codec (idp_at 5)
          (Inr (stock_rows ''42'' (Some ''NaN''))) stock_request ctx_init)
     = Inl INTERNAL
   \<and> failure_count (CIRCUIT (snd (RequestContext (table_jose reader_tokens) strict_codec (idp_at 5)
          (Inr (stock_rows ''42'' (Some ''NaN''))) stock_request ctx_init))) = 1"
  by (simp add: ctx_eval auth_eval breaker_eval)

subsection \<open>Registry lookup\<close>

lemma split2_last_key: "split2_last (redis_key_for name) = name"
  by (simp add: split2_last_def redis_key_for_def after_colon_def)

lemma filter_loop_iff:
  "filter_loop fs caps \<longleftrightarrow> (\<exists>f \<in> set fs. \<exists>cap \<in> set caps. cap_matches cap f)"
  by (induction fs) (auto simp add: cap_loop_iff)

lemma lookup_in_redis_filter:
  "lookup_in_redis fs (map stored recs)
     = map descriptor (filter (\<lambda>r. filter_loop fs (reg_capabilities (snd r))) recs)"
  by (induction recs) (auto simp add: stored_def descriptor_def split2_last_key)

text \<open>
  Claim C7, amended. Let the caller's token verify at the registry (the decoder is asked
  for the audience \<open>RegistryServer\<close>), grant \<open>registry:lookup\<close> and carry \<open>sub\<close>.
  On a store holding the registered records \<open>recs\<close>, \<open>Lookup\<close> returns, in the order
  of the scan, the descriptors of exactly those records of which some stored capability
  matches some requested filter (equal to it, or ending in a star with the filter starting
  with the rest) and whose name the caller's \<open>aud\<close> claim matches under
  \<open>has_audience\<close>; when the records' names are distinct, so are the names returned.
  With records named A and B that both match the filter and a caller whose \<open>aud\<close> is the
  list holding \<open>RegistryServer\<close> and A, the answer is the endpoint of A alone.
\<close>

theorem lookup_filters_by_capability_and_audience:
  assumes tok: "requester_token request \<noteq> []"
    and ver: "verify_jwt_token lib w w (requester_token request) SERVER_NAME_registry a
                = (Inr payload, a')"
    and cap: "has_capability payload ''registry:lookup''"
    and subj: "sub payload = Some client"
  shows "fst (Lookup lib w (Inr (map stored recs)) request a)
           = Inr (map descriptor
                    (filter (\<lambda>r. (\<exists>c \<in> set (reg_capabilities (snd r)).
                                     \<exists>f \<in> set (capability_filter request).
                                       c = f \<or> (endswith c ''*'' \<and> startswith f (drop_last c)))
                                  \<and> has_audience payload (fst r))
                       recs))
         \<and> (distinct (map fst recs) \<longrightarrow>
               (\<forall>eps. fst (Lookup lib w (Inr (map stored recs)) request a) = Inr eps
                      \<longrightarrow> distinct (map server_name eps)))
         \<and> (aud payload = Some (AudList [''RegistryServer'', ''A''])
              \<and> filter_loop (capability_filter request) (reg_capabilities va)
              \<and> filter_loop (capability_filter request) (reg_capabilities vb)
              \<longrightarrow> fst (Lookup lib w (Inr [stored (''A'', va), stored (''B'', vb)]) request a)
                    = Inr [descriptor (''A'', va)])"
proof -
  have run: "fst (Lookup lib w (Inr (map stored rs)) request a)
           = Inr (filter (\<lambda>e. has_audience payload (server_name e))
                    (map descriptor (filter (\<lambda>r. filter_loop (capability_filter request)
                                                  (reg_capabilities (snd r))) rs)))" for rs
    using tok ver cap subj
    by (simp add: Lookup_def subject_def Let_def lookup_in_redis_filter)
  have shape: "filter (\<lambda>e. has_audience payload (server_name e))
                 (map descriptor (filter (\<lambda>r. filter_loop (capability_filter request)
                                               (reg_capabilities (snd r))) rs))
             = map descriptor
                    (filter (\<lambda>r. (\<exists>c \<in> set (reg_capabilities (snd r)).
                                     \<exists>f \<in> set (capability_filter request).
                                       c = f \<or> (endswith c ''*'' \<and> startswith f (drop_last c)))
                                  \<and> has_audience payload (fst r))
                       rs)" for rs
    by (induction rs) (auto simp add: descriptor_def filter_loop_iff cap_matches_iff)
  have first: "fst (Lookup lib w (Inr (map stored recs)) request a)
           = Inr (map descriptor
                    (filter (\<lambda>r. (\<exists>c \<in> set (reg_capabilities (snd r)).
                                     \<exists>f \<in> set (capability_filter request).
                                       c = f \<or> (endswith c ''*'' \<and> startswith f (drop_last c)))
                                  \<and> has_audience payload (fst r))
                       recs))"
    using run[of recs] shape[of recs] by simp
  have names: "server_name \<circ> descriptor = fst"
    by (simp add: fun_eq_iff descriptor_def)
  have once: "distinct (map server_name eps)"
    if "distinct (map fst recs)" "fst (Lookup lib w (Inr (map stored recs)) request a) = Inr eps"
    for eps
  proof -
    from that(2) first have "eps = map descriptor
                    (filter (\<lambda>r. (\<exists>c \<in> set (reg_capabilities (snd r)).
                                     \<exists>f \<in> set (capability_filter request).
                                       c = f \<or> (endswith c ''*'' \<and> startswith f (drop_last c)))
                                  \<and> has_audience payload (fst r))
                       recs)" by simp
    with that(1) show ?thesis
      by (simp add: names distinct_map_filter)
  qed
  have ab: "fst (Lookup lib w (Inr [stored (''A'', va), stored (''B'', vb)]) request a)
                    = Inr [descriptor (''A'', va)]"
    if "aud payload = Some (AudList [''RegistryServer'', ''A''])"
       "filter_loop (capability_filter request) (reg_capabilities va)"
       "filter_loop (capability_filter request) (reg_capabilities vb)"
  proof -
    have "has_audience payload ''A''" "\<not> has_audience payload ''B''"
      using that(1) by (simp_all add: has_audience_def cap_matches_def string_ops)
    then show ?thesis
      using run[of "[(''A'', va), (''B'', vb)]"] that(2,3)
      by (simp add: descriptor_def)
  qed
  from first once ab show ?thesis by blast
qed

theorem lookup_filters_by_capability_and_audience_witness:
  "fst (Lookup (table_jose [''lookup-token'' \<mapsto> (''k1'', looker)]) (idp_at 10)
          (Inr (map stored [(''A'', record_A), (''B'', record_B)])) lookup_request auth_init)
     = Inr [\<lparr>server_name = ''A'', ep_grpc_url = ''10.0.0.1:50051'',
             ep_capabilities = [''telemetry:read'', ''db:inventory:read'']\<rparr>]
   \<and> filter_loop (capability_filter lookup_request) (reg_capabilities record_A)
   \<and> filter_loop (capability_filter lookup_request) (reg_capabilities record_B)"
proof -
  have t: "requester_token lookup_request \<noteq> []"
    by (simp add: lookup_request_def)
  have v: "verify_jwt_token (table_jose [''lookup-token'' \<mapsto> (''k1'', looker)]) (idp_at 10) (idp_at 10)
             (requester_token lookup_request) SERVER_NAME_registry auth_init
           = (Inr looker, \<lparr>JWKS_CACHE = Some [key1], JWKS_LAST_FETCH = 10\<rparr>)"
    by (simp add: auth_eval lookup_request_def looker_def SERVER_NAME_registry_def)
  have c: "has_capability looker ''registry:lookup''"
    by (simp add: looker_def has_capability_def cap_matches_def)
  have s: "sub looker = Some ''agent-7''"
    by (simp add: looker_def)
  have a: "aud looker = Some (AudList [''RegistryServer'', ''A''])"
    by (simp add: looker_def)
  have m: "filter_loop (capability_filter lookup_request) (reg_capabilities record_A)"
          "filter_loop (capability_filter lookup_request) (reg_capabilities record_B)"
    by (simp_all add: lookup_request_def record_A_def record_B_def cap_matches_def string_ops)
  have "fst (Lookup (table_jose [''lookup-token'' \<mapsto> (''k1'', looker)]) (idp_at 10)
               (Inr [stored (''A'', record_A), stored (''B'', record_B)]) lookup_request auth_init)
          = Inr [descriptor (''A'', record_A)]"
    using lookup_filters_by_capability_and_audience
            [OF t v c s, where recs = "[(''A'', record_A), (''B'', record_B)]"
               and va = record_A and vb = record_B] a m
    by blast
  with m show ?thesis
    by (simp add: descriptor_def record_A_def)
qed

text \<open>
  Claim C7 as stated has a caller whose \<open>aud\<close> is the list holding only A receive the
  endpoint of A. \<open>Lookup\<close> verifies the token for the audience \<open>RegistryServer\<close>; a
  decoder that checks the audience refuses a token whose \<open>aud\<close> names only A, and the call
  ends \<open>UNAUTHENTICATED\<close> although both records match the filter.
\<close>

theorem lookup_refuses_caller_named_for_A_only:
  "fst (Lookup (table_jose [''lookup-token'' \<mapsto> (''k1'', looker_only_A)]) (idp_at 10)
          (Inr (map stored [(''A'', record_A), (''B'', record_B)])) lookup_request auth_init)
     = Inl UNAUTHENTICATED
   \<and> aud looker_only_A = Some (AudList [''A''])
   \<and> has_capability looker_only_A ''registry:lookup''
   \<and> has_audience looker_only_A ''A''
   \<and> filter_loop (capability_filter lookup_request) (reg_capabilities record_A)
   \<and> filter_loop (capability_filter lookup_request) (reg_capabilities record_B)"
proof -
  have v: "fst (verify_jwt_token (table_jose [''lookup-token'' \<mapsto> (''k1'', looker_only_A)])
                  (idp_at 10) (idp_at 10) ''lookup-token'' ''RegistryServer'' auth_init)
           = Inl (JWTError ''Invalid audience'')"
    by (simp add: auth_eval looker_only_A_def OIDC_ISSUER_def)
  obtain r a where va: "verify_jwt_token (table_jose [''lookup-token'' \<mapsto> (''k1'', looker_only_A)])
                  (idp_at 10) (idp_at 10) ''lookup-token'' ''RegistryServer'' auth_init = (r, a)"
    by (cases "verify_jwt_token (table_jose [''lookup-token'' \<mapsto> (''k1'', looker_only_A)])
                  (idp_at 10) (idp_at 10) ''lookup-token'' ''RegistryServer'' auth_init")
  with v have "r = Inl (JWTError ''Invalid audience'')" by simp
  with va have l: "fst (Lookup (table_jose [''lookup-token'' \<mapsto> (''k1'', looker_only_A)]) (idp_at 10)
          (Inr (map stored [(''A'', record_A), (''B'', record_B)])) lookup_request auth_init)
     = Inl UNAUTHENTICATED"
    by (simp add: Lookup_def lookup_request_def SERVER_NAME_registry_def)
  have rest: "aud looker_only_A = Some (AudList [''A''])"
             "has_capability looker_only_A ''registry:lookup''"
             "has_audience looker_only_A ''A''"
             "filter_loop (capability_filter lookup_request) (reg_capabilities record_A)"
             "filter_loop (capability_filter lookup_request) (reg_capabilities record_B)"
    by (simp_all add: looker_only_A_def has_capability_def has_audience_def cap_matches_def
          string_ops lookup_request_def record_A_def record_B_def)
  from l rest show ?thesis by simp
qed

subsection \<open>Event bus sequence numbers\<close>

lemma Publish_authorized:
  assumes "authorized lib w request (bus_auth st)"
  shows "\<exists>a. snd (Publish lib dec w True request st)
           = st\<lparr>bus_auth := a,
                TOPIC_COUNTER := (TOPIC_COUNTER st)(topic request \<mapsto>
                   (case TOPIC_COUNTER st (topic request) of None \<Rightarrow> 0 | Some n \<Rightarrow> n) + 1),
                broker := broker st @ [(''mcp2:event:'' @ topic request,
                   \<lparr>env_topic = topic request, env_payload = dec (payload_bytes request),
                    sequence_id = (case TOPIC_COUNTER st (topic request) of None \<Rightarrow> 0 | Some n \<Rightarrow> n) + 1,
                    timestamp = now w\<rparr>)]\<rparr>"
proof -
  obtain r a where pa: "publish_auth lib w request (bus_auth st) = (r, a)"
    by (cases "publish_auth lib w request (bus_auth st)")
  with assms obtain p where "r = Inr p" by (cases r) (auto simp add: authorized_def)
  with pa show ?thesis
    by (cases "subject p") (auto simp add: Publish_def Let_def)
qed

lemma counted_step:
  assumes "counted st" "authorized lib w request (bus_auth st)"
  shows "counted (snd (Publish lib dec w True request st))
       \<and> (\<forall>t. (case TOPIC_COUNTER (snd (Publish lib dec w True request st)) t of None \<Rightarrow> 0 | Some n \<Rightarrow> n)
             = (case TOPIC_COUNTER st t of None \<Rightarrow> 0 | Some n \<Rightarrow> n)
               + (if topic request = t then 1 else 0))"
proof -
  from Publish_authorized[OF assms(2)] obtain a where
    st': "snd (Publish lib dec w True request st)
           = st\<lparr>bus_auth := a,
                TOPIC_COUNTER := (TOPIC_COUNTER st)(topic request \<mapsto>
                   (case TOPIC_COUNTER st (topic request) of None \<Rightarrow> 0 | Some n \<Rightarrow> n) + 1),
                broker := broker st @ [(''mcp2:event:'' @ topic request,
                   \<lparr>env_topic = topic request, env_payload = dec (payload_bytes request),
                    sequence_id = (case TOPIC_COUNTER st (topic request) of None \<Rightarrow> 0 | Some n \<Rightarrow> n) + 1,
                    timestamp = now w\<rparr>)]\<rparr>"
    by blast
  let ?n = "case TOPIC_COUNTER st (topic request) of None \<Rightarrow> 0 | Some n \<Rightarrow> n"
  from assms(1) have n0: "0 \<le> ?n" and ids: "sequence_ids (topic request) st = [1 .. ?n]"
    by (auto simp add: counted_def split: option.splits)
  have snoc: "[1 .. ?n + 1] = [1 .. ?n] @ [?n + 1]"
    using n0 by (simp add: upto_rec2)
  show ?thesis
    using assms(1) n0 ids snoc unfolding st'
    by (auto simp add: counted_def sequence_ids_def split: option.splits)
qed

lemma publish_all_counted:
  assumes "counted st" "all_authorized lib dec calls st"
  shows "counted (publish_all lib dec calls st)
       \<and> (\<forall>t. (case TOPIC_COUNTER (publish_all lib dec calls st) t of None \<Rightarrow> 0 | Some n \<Rightarrow> n)
             = (case TOPIC_COUNTER st t of None \<Rightarrow> 0 | Some n \<Rightarrow> n) + int (published_to t calls))"
  using assms
proof (induction calls arbitrary: st)
  case Nil
  then show ?case by (simp add: published_to_def)
next
  case (Cons c calls)
  obtain w request where c: "c = (w, request)" by (cases c)
  from Cons.prems c have au: "authorized lib w request (bus_auth st)"
    and rest: "all_authorized lib dec calls (snd (Publish lib dec w True request st))"
    by simp_all
  from counted_step[OF Cons.prems(1) au, of dec]
  have st1: "counted (snd (Publish lib dec w True request st))"
    and cnt: "\<And>t. (case TOPIC_COUNTER (snd (Publish lib dec w True request st)) t of None \<Rightarrow> 0 | Some n \<Rightarrow> n)
             = (case TOPIC_COUNTER st t of None \<Rightarrow> 0 | Some n \<Rightarrow> n)
               + (if topic request = t then 1 else 0)"
    by simp_all
  from Cons.IH[OF st1 rest] show ?case
    by (simp add: c cnt published_to_def)
qed

lemma counted_init: "counted bus_init"
  by (simp add: counted_def bus_init_def sequence_ids_def)

text \<open>
  Claim C6. From the state of a fresh process, after any run of authorized \<open>Publish\<close>
  calls, the envelopes of each topic \<open>t\<close> carry, in order, the sequence numbers 1 to the
  number of calls made to \<open>t\<close>, however the calls to other topics are interleaved; when
  every call is to the one topic, the broker has received the numbers 1 to the number of
  calls, in order.
\<close>

theorem publish_sequence_ids:
  assumes "all_authorized lib dec calls bus_init"
  shows "sequence_ids t (publish_all lib dec calls bus_init) = [1 .. int (published_to t calls)]
       \<and> ((\<forall>c \<in> set calls. topic (snd c) = t) \<longrightarrow>
             map sequence_id (map snd (broker (publish_all lib dec calls bus_init)))
               = [1 .. int (length calls)])"
proof -
  let ?st = "publish_all lib dec calls bus_init"
  have c0: "(case TOPIC_COUNTER bus_init u of None \<Rightarrow> 0 | Some n \<Rightarrow> n) = 0" for u
    by (simp add: bus_init_def)
  from publish_all_counted[OF counted_init assms]
  have inv: "counted ?st"
    and cnt: "\<And>u. (case TOPIC_COUNTER ?st u of None \<Rightarrow> 0 | Some n \<Rightarrow> n) = int (published_to u calls)"
    unfolding c0 by simp_all
  have ids: "sequence_ids u ?st = [1 .. int (published_to u calls)]" for u
  proof -
    from inv have "sequence_ids u ?st = [1 .. (case TOPIC_COUNTER ?st u of None \<Rightarrow> 0 | Some n \<Rightarrow> n)]"
      unfolding counted_def by blast
    then show ?thesis unfolding cnt .
  qed
  have single: "map sequence_id (map snd (broker ?st)) = [1 .. int (length calls)]"
    if one: "\<forall>c \<in> set calls. topic (snd c) = t"
  proof -
    have all_t: "env_topic m = t" if m: "m \<in> set (map snd (broker ?st))" for m
    proof (rule ccontr)
      assume ne: "env_topic m \<noteq> t"
      have "filter (\<lambda>c. topic (snd c) = env_topic m) calls = []"
        unfolding filter_empty_conv using one ne by metis
      then have "published_to (env_topic m) calls = 0"
        unfolding published_to_def by simp
      with ids[of "env_topic m"] have "sequence_ids (env_topic m) ?st = []" by simp
      then have "filter (\<lambda>x. env_topic x = env_topic m) (map snd (broker ?st)) = []"
        unfolding sequence_ids_def by simp
      then have "env_topic m \<noteq> env_topic m"
        unfolding filter_empty_conv using m by blast
      then show False by simp
    qed
    have "filter (\<lambda>m. env_topic m = t) (map snd (broker ?st)) = map snd (broker ?st)"
      unfolding filter_id_conv using all_t by blast
    moreover have "filter (\<lambda>c. topic (snd c) = t) calls = calls"
      unfolding filter_id_conv using one by blast
    ultimately show ?thesis
      using ids[of t] unfolding sequence_ids_def published_to_def by simp
  qed
  from ids[of t] single show ?thesis by blast
qed

lemma publisher_auth_first:
  "publish_auth publisher_lib (idp_at t) (publish_request tp) auth_init
     = (Inr publisher, \<lparr>JWKS_CACHE = Some [key1], JWKS_LAST_FETCH = t\<rparr>)"
  by (simp add: publisher_lib_def publish_auth_def SERVER_NAME_event_bus_def first_segment_def
        publisher_def publish_request_def Let_def auth_eval)

lemma publisher_auth_next:
  "t - t0 \<le> 3600 \<Longrightarrow>
   publish_auth publisher_lib (idp_at t) (publish_request tp) \<lparr>JWKS_CACHE = Some [key1], JWKS_LAST_FETCH = t0\<rparr>
     = (Inr publisher, \<lparr>JWKS_CACHE = Some [key1], JWKS_LAST_FETCH = t0\<rparr>)"
  by (simp add: publisher_lib_def publish_auth_def SERVER_NAME_event_bus_def first_segment_def
        publisher_def publish_request_def Let_def auth_eval)

lemma publisher_step:
  assumes "publish_auth publisher_lib (idp_at t) (publish_request tp) a = (Inr publisher, a')"
  shows "snd (Publish publisher_lib id (idp_at t) True (publish_request tp)
            \<lparr>bus_auth = a, TOPIC_COUNTER = tc, broker = br\<rparr>)
         = \<lparr>bus_auth = a',
            TOPIC_COUNTER = tc(tp \<mapsto> (case tc tp of None \<Rightarrow> 0 | Some n \<Rightarrow> n) + 1),
            broker = br @ [(''mcp2:event:'' @ tp,
                            \<lparr>env_topic = tp, env_payload = ''{}'',
                             sequence_id = (case tc tp of None \<Rightarrow> 0 | Some n \<Rightarrow> n) + 1,
                             timestamp = t\<rparr>)]\<rparr>"
  using assms
  by (simp add: Publish_def Let_def subject_def publisher_def publish_request_def idp_at_def)

lemma interleaved_authorized: "all_authorized publisher_lib id interleaved bus_init"
  by (simp add: interleaved_def bus_init_def authorized_def
        publisher_auth_first publisher_auth_next publisher_step)


lemma same_topic_authorized: "all_authorized publisher_lib id
          [(idp_at 1, publish_request ''orders:new''), (idp_at 2, publish_request ''orders:new'')]
          bus_init"
  by (simp add: bus_init_def authorized_def publisher_auth_first publisher_auth_next publisher_step)

theorem publish_sequence_ids_witness:
  "sequence_ids ''inventory:low_stock'' (publish_all publisher_lib id interleaved bus_init) = [1, 2]
   \<and> sequence_ids ''orders:new'' (publish_all publisher_lib id interleaved bus_init) = [1]
   \<and> map sequence_id (map snd (broker
       (publish_all publisher_lib id
          [(idp_at 1, publish_request ''orders:new''), (idp_at 2, publish_request ''orders:new'')]
          bus_init)))
     = [1, 2]"
proof -
  have u: "[1 .. 2 :: int] = [1, 2]" "[1 .. 1 :: int] = [1]"
    by (simp_all add: upto.simps)
  have n: "published_to ''inventory:low_stock'' interleaved = 2"
          "published_to ''orders:new'' interleaved = 1"
    by (simp_all add: published_to_def interleaved_def publish_request_def)
  have one: "\<forall>c \<in> set [(idp_at 1, publish_request ''orders:new''),
                        (idp_at 2, publish_request ''orders:new'')]. topic (snd c) = ''orders:new''"
    by (simp add: publish_request_def)
  show ?thesis
    using publish_sequence_ids[OF interleaved_authorized, of "''inventory:low_stock''"]
          publish_sequence_ids[OF interleaved_authorized, of "''orders:new''"]
          publish_sequence_ids[OF same_topic_authorized, of "''orders:new''"] one
    by (simp add: n u)
qed

subsection \<open>Delegation and the pricing tool\<close>

lemma price_of_ten: "recommended_price 10 = Inr (6966505673588736, - 46)"
  by code_simp

lemma str_of_99: "float_str (6966505673588736, - 46) = ''99.0''"
  by code_simp

lemma int_of_ten: "py_int ''10'' = Inr 10"
  by code_simp

lemma star_covers_pricing: "cap_loop [''tool:*''] ''tool:compute_pricing''"
  by (simp add: cap_matches_def string_ops)

lemma delegation_token_verifies:
  "verify_jwt_token tool_lib (idp_at 5) (idp_at 5) ''delegation-token'' ''ContextToolServer'' auth_init
     = (Inr pricing_delegation, \<lparr>JWKS_CACHE = Some [key1], JWKS_LAST_FETCH = 5\<rparr>)"
  by (simp add: tool_lib_def auth_eval pricing_delegation_def wildcard_parent_def)

lemma parent_token_verifies:
  "verify_jwt_token tool_lib (idp_at 5) (idp_at 5) ''parent-token'' ''ContextToolServer'' auth_init
     = (Inr wildcard_parent, \<lparr>JWKS_CACHE = Some [key1], JWKS_LAST_FETCH = 5\<rparr>)"
  by (simp add: tool_lib_def auth_eval pricing_delegation_def wildcard_parent_def)

text \<open>
  Claim C1, amended. \<open>verify_delegation_proof\<close> accepts a delegation token only if
  every string of the delegation's capabilities list is itself an entry of the parent's
  list, and so is matched by the parent's list under the rule of \<open>has_capability\<close>; a
  wildcard entry of the parent does not cover a delegated string. For a parent with the
  list holding \<open>tool:*\<close> and a delegation with the list holding
  \<open>tool:compute_pricing\<close>, same issuer and subject, delegatee the server itself, the
  delegation is refused with \<open>ValueError\<close>. \<open>InvokeTool\<close> of \<open>compute_pricing\<close> with
  \<open>sku = x\<close> and \<open>stock_count = 10\<close> under that parent token (audience matching
  the server, \<open>sub\<close> present, breaker admitting) returns success with
  \<open>recommended_price\<close> 99.0 whatever delegation proof the request carries: the parent's
  own wildcard grants the capability.
\<close>

theorem delegation_subset_and_pricing:
  "(verify_delegation_proof lib w1 w2 token name parent s = (Inr d, s') \<longrightarrow>
      (\<forall>c \<in> set (granted d). c \<in> set (granted parent) \<and> cap_loop (granted parent) c))
   \<and> (verify_jwt_token lib w1 w2 token name s = (Inr d, s')
        \<and> iss d = iss parent \<and> sub d = sub parent \<and> delegatee d = Some name
        \<and> capabilities parent = Some [''tool:*'']
        \<and> capabilities d = Some [''tool:compute_pricing'']
      \<longrightarrow> verify_delegation_proof lib w1 w2 token name parent s
            = (Inl (ValueError ''Delegated capabilities exceed original token's capabilities''), s'))
   \<and> (verify_jwt_token lib w w (capability_token_tool request) SERVER_NAME_context_tool (auth st)
          = (Inr parent, a)
        \<and> capabilities parent = Some [''tool:*'']
        \<and> has_audience parent SERVER_NAME_context_tool
        \<and> sub parent = Some client
        \<and> before_call (now w) (CIRCUIT st) = Inr True
        \<and> tool_name request = ''compute_pricing''
        \<and> arguments request = [''sku'' \<mapsto> ''x'', ''stock_count'' \<mapsto> ''10'']
      \<longrightarrow> fst (InvokeTool lib w request st)
            = Inr \<lparr>success_tool = True, outputs = [''recommended_price'' \<mapsto> ''99.0''],
                   warnings = []\<rparr>)"
proof -
  have only_if: "\<forall>c \<in> set (granted d). c \<in> set (granted parent) \<and> cap_loop (granted parent) c"
    if acc: "verify_delegation_proof lib w1 w2 token name parent s = (Inr d, s')"
  proof -
    obtain r s1 where v: "verify_jwt_token lib w1 w2 token name s = (r, s1)"
      by (cases "verify_jwt_token lib w1 w2 token name s")
    with acc obtain p where r: "r = Inr p"
      by (cases r) (simp_all add: verify_delegation_proof_def)
    from acc v r have "set (granted p) \<subseteq> set (granted parent) \<and> d = p"
      by (simp add: verify_delegation_proof_def granted_def Let_def split: if_splits)
    then have sub: "set (granted d) \<subseteq> set (granted parent)" by simp
    show ?thesis
    proof
      fix c assume "c \<in> set (granted d)"
      with sub have m: "c \<in> set (granted parent)" by blast
      have "cap_matches c c" by (simp add: cap_matches_def)
      with m have "cap_loop (granted parent) c" unfolding cap_loop_iff by blast
      with m show "c \<in> set (granted parent) \<and> cap_loop (granted parent) c" by simp
    qed
  qed
  have rejected: "verify_delegation_proof lib w1 w2 token name parent s
            = (Inl (ValueError ''Delegated capabilities exceed original token's capabilities''), s')"
    if "verify_jwt_token lib w1 w2 token name s = (Inr d, s')"
       "iss d = iss parent" "sub d = sub parent" "delegatee d = Some name"
       "capabilities parent = Some [''tool:*'']"
       "capabilities d = Some [''tool:compute_pricing'']"
    using that by (simp add: verify_delegation_proof_def)
  have priced: "fst (InvokeTool lib w request st)
            = Inr \<lparr>success_tool = True, outputs = [''recommended_price'' \<mapsto> ''99.0''],
                   warnings = []\<rparr>"
    if v: "verify_jwt_token lib w w (capability_token_tool request) SERVER_NAME_context_tool (auth st)
          = (Inr parent, a)"
      and caps: "capabilities parent = Some [''tool:*'']"
      and au: "has_audience parent SERVER_NAME_context_tool"
      and sb: "sub parent = Some client"
      and br: "before_call (now w) (CIRCUIT st) = Inr True"
      and tn: "tool_name request = ''compute_pricing''"
      and args: "arguments request = [''sku'' \<mapsto> ''x'', ''stock_count'' \<mapsto> ''10'']"
  proof -
    have hc: "has_capability parent (''tool:'' @ tool_name request)"
      using caps tn star_covers_pricing by (simp add: has_capability_def)
    have authd: "invoke_tool_auth lib w request (auth st) = (Inr parent, a)"
      using v hc au by (simp add: invoke_tool_auth_def Let_def)
    have tool: "run_tool request = Inr ([''recommended_price'' \<mapsto> ''99.0''], [])"
      using tn args by (simp add: run_tool_def int_of_ten price_of_ten str_of_99)
    show ?thesis
      using authd br tool sb by (simp add: InvokeTool_def Let_def subject_def)
  qed
  from only_if rejected priced show ?thesis by blast
qed

theorem delegation_subset_and_pricing_witness:
  "verify_delegation_proof tool_lib (idp_at 5) (idp_at 5) ''delegation-token'' ''ContextToolServer''
     listing_parent auth_init
   = (Inr pricing_delegation, \<lparr>JWKS_CACHE = Some [key1], JWKS_LAST_FETCH = 5\<rparr>)
   \<and> ''tool:compute_pricing'' \<in> set (granted listing_parent)
   \<and> cap_loop (granted listing_parent) ''tool:compute_pricing''
   \<and> verify_delegation_proof tool_lib (idp_at 5) (idp_at 5) ''delegation-token'' ''ContextToolServer''
        wildcard_parent auth_init
      = (Inl (ValueError ''Delegated capabilities exceed original token's capabilities''),
         \<lparr>JWKS_CACHE = Some [key1], JWKS_LAST_FETCH = 5\<rparr>)
   \<and> fst (InvokeTool tool_lib (idp_at 5) pricing_request ctx_init)
      = Inr \<lparr>success_tool = True, outputs = [''recommended_price'' \<mapsto> ''99.0''], warnings = []\<rparr>"
proof -
  have acc: "verify_delegation_proof tool_lib (idp_at 5) (idp_at 5) ''delegation-token''
               ''ContextToolServer'' listing_parent auth_init
             = (Inr pricing_delegation, \<lparr>JWKS_CACHE = Some [key1], JWKS_LAST_FETCH = 5\<rparr>)"
    by (simp add: verify_delegation_proof_def delegation_token_verifies
          listing_parent_def pricing_delegation_def)
  have mem: "''tool:compute_pricing'' \<in> set (granted pricing_delegation)"
    by (simp add: granted_def pricing_delegation_def)
  have same: "iss pricing_delegation = iss wildcard_parent"
             "sub pricing_delegation = sub wildcard_parent"
             "delegatee pricing_delegation = Some ''ContextToolServer''"
             "capabilities wildcard_parent = Some [''tool:*'']"
             "capabilities pricing_delegation = Some [''tool:compute_pricing'']"
    by (simp_all add: wildcard_parent_def pricing_delegation_def)
  have call: "verify_jwt_token tool_lib (idp_at 5) (idp_at 5) (capability_token_tool pricing_request)
                SERVER_NAME_context_tool (auth ctx_init)
              = (Inr wildcard_parent, \<lparr>JWKS_CACHE = Some [key1], JWKS_LAST_FETCH = 5\<rparr>)"
    using parent_token_verifies
    by (simp add: pricing_request_def SERVER_NAME_context_tool_def ctx_init_def)
  have rest: "has_audience wildcard_parent SERVER_NAME_context_tool"
             "sub wildcard_parent = Some ''agent-7''"
             "before_call (now (idp_at 5)) (CIRCUIT ctx_init) = Inr True"
             "tool_name pricing_request = ''compute_pricing''"
             "arguments pricing_request = [''sku'' \<mapsto> ''x'', ''stock_count'' \<mapsto> ''10'']"
    by (simp_all add: has_audience_def cap_matches_def wildcard_parent_def
          SERVER_NAME_context_tool_def ctx_init_def breaker_eval pricing_request_def)
  from delegation_subset_and_pricing
         [where lib = tool_lib and ?w1.0 = "idp_at 5" and ?w2.0 = "idp_at 5"
            and token = "''delegation-token''" and name = "''ContextToolServer''"
            and parent = listing_parent and s = auth_init and d = pricing_delegation
            and s' = "\<lparr>JWKS_CACHE = Some [key1], JWKS_LAST_FETCH = 5\<rparr>"]
       acc mem
  have a: "''tool:compute_pricing'' \<in> set (granted listing_parent)
           \<and> cap_loop (granted listing_parent) ''tool:compute_pricing''"
    by blast
  from delegation_subset_and_pricing
         [where lib = tool_lib and ?w1.0 = "idp_at 5" and ?w2.0 = "idp_at 5"
            and token = "''delegation-token''" and name = "''ContextToolServer''"
            and parent = wildcard_parent and s = auth_init and d = pricing_delegation
            and s' = "\<lparr>JWKS_CACHE = Some [key1], JWKS_LAST_FETCH = 5\<rparr>"
            and w = "idp_at 5" and request = pricing_request and st = ctx_init
            and a = "\<lparr>JWKS_CACHE = Some [key1], JWKS_LAST_FETCH = 5\<rparr>"
            and client = "''agent-7''"]
       delegation_token_verifies same call rest
  have b: "verify_delegation_proof tool_lib (idp_at 5) (idp_at 5) ''delegation-token''
             ''ContextToolServer'' wildcard_parent auth_init
           = (Inl (ValueError ''Delegated capabilities exceed original token's capabilities''),
              \<lparr>JWKS_CACHE = Some [key1], JWKS_LAST_FETCH = 5\<rparr>)"
    and c: "fst (InvokeTool tool_lib (idp_at 5) pricing_request ctx_init)
            = Inr \<lparr>success_tool = True, outputs = [''recommended_price'' \<mapsto> ''99.0''],
                   warnings = []\<rparr>"
    by blast+
  from acc a b c show ?thesis by simp
qed

text \<open>
  Claim C1 as stated has the delegation of \<open>tool:compute_pricing\<close> under a parent
  holding \<open>tool:*\<close> accepted. With the same issuer and subject, delegatee and audience
  \<open>ContextToolServer\<close>, and the parent granting \<open>tool:compute_pricing\<close> through its
  wildcard, \<open>verify_delegation_proof\<close> refuses it.
\<close>

theorem wildcard_parent_delegation_rejected:
  "verify_delegation_proof tool_lib (idp_at 5) (idp_at 5) ''delegation-token'' ''ContextToolServer''
     wildcard_parent auth_init
   = (Inl (ValueError ''Delegated capabilities exceed original token's capabilities''),
      \<lparr>JWKS_CACHE = Some [key1], JWKS_LAST_FETCH = 5\<rparr>)
   \<and> granted wildcard_parent = [''tool:*'']
   \<and> granted pricing_delegation = [''tool:compute_pricing'']
   \<and> has_capability wildcard_parent ''tool:compute_pricing''
   \<and> iss pricing_delegation = iss wildcard_parent
   \<and> sub pricing_delegation = sub wildcard_parent
   \<and> delegatee pricing_delegation = Some ''ContextToolServer''
   \<and> has_audience pricing_delegation ''ContextToolServer''"
  by (simp add: verify_delegation_proof_def delegation_token_verifies granted_def
        has_capability_def has_audience_def cap_matches_def string_ops
        wildcard_parent_def pricing_delegation_def)

end
